theory Spec2Isabelle
  imports Main "HOL-Library.List_Lexorder" "HOL-Library.Word"
begin

section \<open>Python values used by \<^verbatim>\<open>pdf_generator.py\<close>\<close>

text \<open>
  A Python \<^verbatim>\<open>str\<close> is a sequence of Unicode code points. It is modelled as the list of
  these code points, so that \<open>=\<close>, \<open>@\<close> and the lexicographic order of
  \<^verbatim>\<open>HOL-Library.List_Lexorder\<close> are Python's \<^verbatim>\<open>==\<close>, \<^verbatim>\<open>+\<close> and \<^verbatim>\<open><\<close>, \<^verbatim>\<open><=\<close> on strings
  (compare at the first position that differs; a proper prefix is smaller).
  \<open>str\<close> turns an ASCII literal into this form; the Persian literals of the source are
  written out by code point.
\<close>

type_synonym pystr = "nat list"

definition str :: "string \<Rightarrow> pystr" where
  "str s = map of_char s"

type_synonym byte = "8 word"

text \<open>
  Exceptions. The library (fpdf) may raise from any call; what it raises is either an
  instance of \<^verbatim>\<open>Exception\<close> or of \<^verbatim>\<open>BaseException\<close> outside \<^verbatim>\<open>Exception\<close>
  (\<^verbatim>\<open>KeyboardInterrupt\<close>, \<^verbatim>\<open>SystemExit\<close>); the argument is \<^verbatim>\<open>str(e)\<close>.
  The code itself can raise \<^verbatim>\<open>IndexError\<close> (list indexing) and
  \<^verbatim>\<open>UnicodeEncodeError\<close> (\<^verbatim>\<open>.encode\<close>).
\<close>

datatype lib_exn = Exception pystr | BaseException pystr

datatype exn = LibraryError lib_exn | IndexError | UnicodeEncodeError

fun is_Exception :: "lib_exn \<Rightarrow> bool" where
  "is_Exception (Exception m) = True"
| "is_Exception (BaseException m) = False"

fun exn_str :: "lib_exn \<Rightarrow> pystr" where
  "exn_str (Exception m) = m"
| "exn_str (BaseException m) = m"

text \<open>\<^verbatim>\<open>xs[i]\<close> and \<^verbatim>\<open>xs[i] = v\<close> on a Python list: a negative index counts from the end,
  an index out of range raises \<^verbatim>\<open>IndexError\<close>.\<close>

definition getitem :: "'a list \<Rightarrow> int \<Rightarrow> exn + 'a" where
  "getitem xs i =
     (let n = int (length xs); j = (if i < 0 then i + n else i)
      in if 0 \<le> j \<and> j < n then Inr (xs ! nat j) else Inl IndexError)"

definition setitem :: "'a list \<Rightarrow> int \<Rightarrow> 'a \<Rightarrow> exn + 'a list" where
  "setitem xs i v =
     (let n = int (length xs); j = (if i < 0 then i + n else i)
      in if 0 \<le> j \<and> j < n then Inr (xs[nat j := v]) else Inl IndexError)"



text \<open>\<^verbatim>\<open>s.encode('latin-1')\<close> and \<^verbatim>\<open>s.encode('utf-8')\<close> (strict error handling).\<close>

definition encode_latin1 :: "pystr \<Rightarrow> exn + byte list" where
  "encode_latin1 s =
     (if list_all (\<lambda>c. c < 256) s then Inr (map of_nat s) else Inl UnicodeEncodeError)"

definition utf8_char :: "nat \<Rightarrow> exn + byte list" where
  "utf8_char c =
     (if c < 0x80 then Inr [of_nat c]
      else if c < 0x800 then Inr [of_nat (0xC0 + c div 64), of_nat (0x80 + c mod 64)]
      else if 0xD800 \<le> c \<and> c \<le> 0xDFFF then Inl UnicodeEncodeError
      else if c < 0x10000 then
        Inr [of_nat (0xE0 + c div 4096), of_nat (0x80 + c div 64 mod 64), of_nat (0x80 + c mod 64)]
      else
        Inr [of_nat (0xF0 + c div 262144), of_nat (0x80 + c div 4096 mod 64),
             of_nat (0x80 + c div 64 mod 64), of_nat (0x80 + c mod 64)])"

fun encode_utf8 :: "pystr \<Rightarrow> exn + byte list" where
  "encode_utf8 [] = Inr []"
| "encode_utf8 (c # cs) =
     (case utf8_char c of
        Inl e \<Rightarrow> Inl e
      | Inr bs \<Rightarrow> (case encode_utf8 cs of Inl e \<Rightarrow> Inl e | Inr rest \<Rightarrow> Inr (bs @ rest)))"

section \<open>The module constants\<close>

text \<open>\<^verbatim>\<open>PERSIAN_WEEKDAYS\<close> and \<^verbatim>\<open>ENGLISH_WEEKDAYS\<close> (lines 9 and 10).\<close>

definition PERSIAN_WEEKDAYS :: "pystr list" where
  "PERSIAN_WEEKDAYS =
     [[0x634, 0x646, 0x628, 0x647],
      [0x6CC, 0x6A9, 0x634, 0x646, 0x628, 0x647],
      [0x62F, 0x648, 0x634, 0x646, 0x628, 0x647],
      [0x633, 0x647, 0x200C, 0x634, 0x646, 0x628, 0x647],
      [0x686, 0x647, 0x627, 0x631, 0x634, 0x646, 0x628, 0x647]]"

definition ENGLISH_WEEKDAYS :: "pystr list" where
  "ENGLISH_WEEKDAYS =
     [str ''saturday'', str ''sunday'', str ''monday'', str ''tuesday'', str ''wednesday'']"

text \<open>
  \<^verbatim>\<open>TIME_SLOTS\<close> (lines 11 to 17) is a dict literal; \<^verbatim>\<open>.items()\<close> enumerates it in the
  order written, so it is an association list. The inner dict has the two keys
  \<^verbatim>\<open>'start'\<close> and \<^verbatim>\<open>'end'\<close>, here the fields \<open>slot_start\<close> and \<open>slot_end\<close>.
\<close>

record slot_info =
  slot_start :: pystr
  slot_end :: pystr

definition TIME_SLOTS :: "(pystr \<times> slot_info) list" where
  "TIME_SLOTS =
     [([0x6A9, 0x644, 0x627, 0x633, 0x20, 0x627, 0x648, 0x644],
         \<lparr>slot_start = str ''08:00'', slot_end = str ''10:00''\<rparr>),
      ([0x6A9, 0x644, 0x627, 0x633, 0x20, 0x62F, 0x648, 0x645],
         \<lparr>slot_start = str ''10:00'', slot_end = str ''12:00''\<rparr>),
      ([0x6A9, 0x644, 0x627, 0x633, 0x20, 0x633, 0x648, 0x645],
         \<lparr>slot_start = str ''13:00'', slot_end = str ''15:00''\<rparr>),
      ([0x6A9, 0x644, 0x627, 0x633, 0x20, 0x686, 0x647, 0x627, 0x631, 0x645],
         \<lparr>slot_start = str ''15:00'', slot_end = str ''17:00''\<rparr>),
      ([0x6A9, 0x644, 0x627, 0x633, 0x20, 0x67E, 0x646, 0x62C, 0x645],
         \<lparr>slot_start = str ''17:00'', slot_end = str ''19:00''\<rparr>)]"

section \<open>The input\<close>

text \<open>
  A lesson entry is a dict from field names to strings; a week schedule is a dict from day
  names to lists of lesson entries; the schedule object and the user record are dicts
  with fixed keys, each of which may be missing. A field of a lesson entry is either
  missing or a string: the code has no check for values of other types.
\<close>

type_synonym lesson = "pystr \<rightharpoonup> pystr"

type_synonym week_schedule = "pystr \<rightharpoonup> lesson list"

record schedules =
  odd_week_schedule :: "week_schedule option"
  even_week_schedule :: "week_schedule option"

record user_data =
  fullName :: "pystr option"
  schedule :: "schedules option"

section \<open>Building the table data (lines 73 to 99)\<close>

text \<open>Line 83: the cell text of a lesson; a missing field takes the default of \<^verbatim>\<open>.get\<close>.\<close>

definition UNKNOWN_LESSON :: pystr where
  "UNKNOWN_LESSON = [0x62F, 0x631, 0x633, 0x20, 0x646, 0x627, 0x645, 0x634, 0x62E, 0x635]"

definition lesson_text :: "lesson \<Rightarrow> pystr" where
  "lesson_text l =
     (case l (str ''lesson'') of None \<Rightarrow> UNKNOWN_LESSON | Some v \<Rightarrow> v)
     @ str ''\<newline>''
     @ (case l (str ''location'') of None \<Rightarrow> str ''-'' | Some v \<Rightarrow> v)"

text \<open>Line 88: the test of one slot. \<^verbatim>\<open>None\<close> and the empty string are falsy.\<close>

definition in_slot :: "pystr option \<Rightarrow> slot_info \<Rightarrow> bool" where
  "in_slot start_time info =
     (case start_time of
        None \<Rightarrow> False
      | Some t \<Rightarrow> t \<noteq> [] \<and> slot_start info \<le> t \<and> t < slot_end info)"

text \<open>Lines 85 to 90: the scan over \<^verbatim>\<open>enumerate(TIME_SLOTS.items())\<close> from position \<open>i\<close>;
  it stops at the first slot that passes the test and yields \<open>i + 1\<close>, or \<open>-1\<close>.\<close>

fun slot_scan :: "pystr option \<Rightarrow> nat \<Rightarrow> (pystr \<times> slot_info) list \<Rightarrow> int" where
  "slot_scan start_time i [] = - 1"
| "slot_scan start_time i ((slot_name, info) # rest) =
     (if in_slot start_time info then int i + 1 else slot_scan start_time (Suc i) rest)"

definition slot_index :: "lesson \<Rightarrow> int" where
  "slot_index l = slot_scan (l (str ''start_time'')) 0 TIME_SLOTS"

text \<open>Lines 92 to 97: one iteration of the loop over the lessons, on the row built so far.\<close>

definition SEPARATOR :: pystr where
  "SEPARATOR = str ''\<newline>---\<newline>''"

definition place_lesson :: "pystr list \<Rightarrow> lesson \<Rightarrow> exn + pystr list" where
  "place_lesson row l =
     (if slot_index l \<noteq> - 1 then
        (case getitem row (slot_index l) of
           Inl e \<Rightarrow> Inl e
         | Inr c \<Rightarrow>
             if c = str ''-'' then setitem row (slot_index l) (lesson_text l)
             else setitem row (slot_index l) (c @ SEPARATOR @ lesson_text l))
      else Inr row)"

fun place_lessons :: "pystr list \<Rightarrow> lesson list \<Rightarrow> exn + pystr list" where
  "place_lessons row [] = Inr row"
| "place_lessons row (l # ls) =
     (case place_lesson row l of Inl e \<Rightarrow> Inl e | Inr row' \<Rightarrow> place_lessons row' ls)"

text \<open>Lines 77 to 98: the row of one day.\<close>

definition day_lessons :: "week_schedule \<Rightarrow> pystr \<Rightarrow> lesson list" where
  "day_lessons week day_en = (case week day_en of None \<Rightarrow> [] | Some ls \<Rightarrow> ls)"

definition build_row :: "week_schedule \<Rightarrow> pystr \<Rightarrow> pystr \<Rightarrow> exn + pystr list" where
  "build_row week day_en day_fa =
     place_lessons (day_fa # replicate (length TIME_SLOTS) (str ''-'')) (day_lessons week day_en)"

text \<open>Lines 74 to 99: the loop over \<^verbatim>\<open>zip(ENGLISH_WEEKDAYS, PERSIAN_WEEKDAYS)\<close>, appending
  each row to \<^verbatim>\<open>table_data\<close>.\<close>

fun table_loop ::
  "week_schedule \<Rightarrow> (pystr \<times> pystr) list \<Rightarrow> pystr list list \<Rightarrow> exn + pystr list list" where
  "table_loop week [] acc = Inr acc"
| "table_loop week ((day_en, day_fa) # days) acc =
     (case build_row week day_en day_fa of
        Inl e \<Rightarrow> Inl e
      | Inr row \<Rightarrow> table_loop week days (acc @ [row]))"

definition table_data :: "week_schedule \<Rightarrow> exn + pystr list list" where
  "table_data week = table_loop week (zip ENGLISH_WEEKDAYS PERSIAN_WEEKDAYS) []"

text \<open>Line 73 and line 104.\<close>

definition table_headers :: "pystr list" where
  "table_headers =
     [0x631, 0x648, 0x632]
     # map (\<lambda>(slot_name, info).
              slot_name @ str ''\<newline>'' @ slot_start info @ str '' - '' @ slot_end info)
         TIME_SLOTS"

definition col_widths :: "int list" where
  "col_widths = 25 # replicate (length TIME_SLOTS) 50"

section \<open>The library and the world\<close>

text \<open>
  The rendering is delegated to the fpdf library, whose code is not part of the program.
  The program is observed through the library calls it makes, in order (a call that
  raises is recorded as well), through what it prints and through what it returns or
  raises. A call and its arguments:
  \<^item> \<open>NewPDF\<close>: the constructor \<^verbatim>\<open>PDF(orientation, unit, format)\<close>;
  \<^item> \<open>AliasNbPages\<close>, \<open>AddPage\<close>, \<open>PageNo\<close>: \<^verbatim>\<open>alias_nb_pages()\<close>, \<^verbatim>\<open>add_page()\<close>,
    \<^verbatim>\<open>page_no()\<close>;
  \<^item> \<open>AddFont\<close>: \<^verbatim>\<open>add_font(family, style, fname, uni)\<close>;
  \<^item> \<open>SetFont\<close>: \<^verbatim>\<open>set_font(family, style, size)\<close>;
  \<^item> \<open>SetY\<close>, \<open>Ln\<close>: \<^verbatim>\<open>set_y(y)\<close>, \<^verbatim>\<open>ln(h)\<close>;
  \<^item> \<open>Cell\<close>: \<^verbatim>\<open>cell(w, h, txt, border, ln, align)\<close>;
  \<^item> \<open>AutoTable\<close>: \<^verbatim>\<open>auto_table(table_data, headings, col_widths, ...)\<close>, the last
    argument holding the remaining keyword arguments, all literals;
  \<^item> \<open>Output\<close>: \<^verbatim>\<open>output(dest)\<close>.
\<close>

datatype pyval =
    VStr pystr
  | VInt int
  | VBool bool
  | VTuple "int list"
  | VDict "(pystr \<times> pyval) list"

datatype call =
    NewPDF pystr pystr pystr
  | AliasNbPages
  | AddPage
  | PageNo
  | AddFont pystr pystr pystr bool
  | SetFont pystr pystr int
  | SetY int
  | Ln int
  | Cell int int pystr int int pystr
  | AutoTable "pystr list list" "pystr list" "int list" "(pystr \<times> pyval) list"
  | Output pystr

text \<open>
  What the library does is a parameter: given the calls made so far, \<open>raises\<close> says
  whether the next call raises and what, and the other three fields give the value of
  the attribute \<^verbatim>\<open>font_family\<close>, of \<^verbatim>\<open>page_no()\<close> and of \<^verbatim>\<open>output(dest='S')\<close>
  (a \<^verbatim>\<open>str\<close>, as lines 143 and 145 take it). Calls the library makes back into
  \<^verbatim>\<open>header\<close> and \<^verbatim>\<open>footer\<close> happen inside the library and are part of this parameter.
\<close>

record fpdf =
  raises :: "call list \<Rightarrow> call \<Rightarrow> lib_exn option"
  font_family_of :: "call list \<Rightarrow> pystr"
  page_no_of :: "call list \<Rightarrow> int"
  output_of :: "call list \<Rightarrow> pystr"

record world =
  calls :: "call list"
  stderr :: pystr
  stdout :: pystr

text \<open>A statement runs in a world and ends normally (\<open>None\<close>) or by raising.\<close>

type_synonym 'e stmt = "world \<Rightarrow> 'e option \<times> world"

definition invoke :: "fpdf \<Rightarrow> call \<Rightarrow> lib_exn stmt" where
  "invoke lib c w = (raises lib (calls w) c, w\<lparr>calls := calls w @ [c]\<rparr>)"

definition seq :: "'e stmt \<Rightarrow> 'e stmt \<Rightarrow> 'e stmt" where
  "seq p q w = (case p w of (None, w') \<Rightarrow> q w' | (Some e, w') \<Rightarrow> (Some e, w'))"

text \<open>\<^verbatim>\<open>try: p except Exception as e: h\<close> and \<^verbatim>\<open>try: p except: h\<close>.\<close>

definition try_except_Exception :: "lib_exn stmt \<Rightarrow> (lib_exn \<Rightarrow> lib_exn stmt) \<Rightarrow> lib_exn stmt" where
  "try_except_Exception p h w =
     (case p w of
        (None, w') \<Rightarrow> (None, w')
      | (Some e, w') \<Rightarrow> if is_Exception e then h e w' else (Some e, w'))"


text \<open>\<^verbatim>\<open>print(s, file=sys.stderr)\<close> writes \<open>s\<close> and a newline.\<close>

definition print_stderr :: "pystr \<Rightarrow> 'e stmt" where
  "print_stderr s w = (None, w\<lparr>stderr := stderr w @ s @ str ''\<newline>''\<rparr>)"

section \<open>The class \<^verbatim>\<open>PDF\<close> (lines 19 to 46)\<close>

definition header :: "fpdf \<Rightarrow> pystr \<Rightarrow> pystr \<Rightarrow> pystr \<Rightarrow> lib_exn stmt" where
  "header lib full_name week_label week_emoji =
     seq (try_except_Exception
            (seq (invoke lib (AddFont (str ''Vazir'') (str '''') (str ''Vazirmatn-Regular.ttf'') True))
                 (invoke lib (SetFont (str ''Vazir'') (str '''') 16)))
            (\<lambda>e. seq (print_stderr (str ''Error loading font: '' @ exn_str e))
                      (invoke lib (SetFont (str ''Arial'') (str ''B'') 16))))
    (seq (invoke lib (SetY 10))
    (seq (invoke lib
            (Cell 0 10
               [0x628, 0x631, 0x646, 0x627, 0x645, 0x647, 0x20, 0x647, 0x641, 0x62A, 0x6AF, 0x6CC]
               0 1 (str ''C'')))
    (seq (\<lambda>w. invoke lib (SetFont (font_family_of lib (calls w)) (str '''') 14) w)
    (seq (invoke lib
            (Cell 0 10 ([0x646, 0x627, 0x645, 0x3A, 0x20] @ full_name) 0 1 (str ''C'')))
    (seq (invoke lib
            (Cell 0 10
               ([0x647, 0x641, 0x62A, 0x647, 0x20] @ week_label @ str '' '' @ week_emoji)
               0 1 (str ''C'')))
         (invoke lib (Ln 5)))))))"


text \<open>
  \<^verbatim>\<open>header\<close> and \<^verbatim>\<open>footer\<close> override the page hooks of the library: \<^verbatim>\<open>add_page()\<close> calls
  \<^verbatim>\<open>self.header()\<close> itself, with no argument. Line 20 gives \<^verbatim>\<open>header\<close> three parameters
  besides \<^verbatim>\<open>self\<close>, none with a default, so only a call with three arguments is
  accepted; any other raises \<^verbatim>\<open>TypeError\<close> before the body runs. \<open>page_hook\<close> says of a
  library that it makes this call: when \<^verbatim>\<open>header\<close> does not accept it, \<^verbatim>\<open>add_page()\<close>
  raises (a \<^verbatim>\<open>TypeError\<close> is an \<^verbatim>\<open>Exception\<close>).
\<close>

definition header_accepts :: "pystr list \<Rightarrow> bool" where
  "header_accepts args \<longleftrightarrow> length args = 3"

definition page_hook :: "fpdf \<Rightarrow> bool" where
  "page_hook lib \<longleftrightarrow>
     header_accepts [] \<or> (\<forall>h. \<exists>m. raises lib h AddPage = Some (Exception m))"

section \<open>\<^verbatim>\<open>generate_schedule_pdf\<close> (lines 48 to 147)\<close>

text \<open>Lines 63 to 66: the two week types, with the fields \<^verbatim>\<open>type\<close>, \<^verbatim>\<open>label\<close>,
  \<^verbatim>\<open>emoji\<close> and \<^verbatim>\<open>data\<close>.\<close>

record week_info =
  wk_type :: pystr
  wk_label :: pystr
  wk_emoji :: pystr
  wk_data :: week_schedule

definition week_types :: "schedules \<Rightarrow> week_info list" where
  "week_types sch =
     [\<lparr>wk_type = str ''odd'', wk_label = [0x641, 0x631, 0x62F], wk_emoji = [0x1F7E3],
        wk_data = (case odd_week_schedule sch of None \<Rightarrow> Map.empty | Some d \<Rightarrow> d)\<rparr>,
      \<lparr>wk_type = str ''even'', wk_label = [0x632, 0x648, 0x62C], wk_emoji = [0x1F7E2],
        wk_data = (case even_week_schedule sch of None \<Rightarrow> Map.empty | Some d \<Rightarrow> d)\<rparr>]"

text \<open>Lines 111 to 135: the literal keyword arguments of \<^verbatim>\<open>auto_table\<close>.\<close>

definition table_options :: "(pystr \<times> pyval) list" where
  "table_options =
     [(str ''cell_fill_color'', VTuple [230, 230, 230]),
      (str ''cell_text_color'', VTuple [0, 0, 0]),
      (str ''cell_align'', VStr (str ''C'')),
      (str ''cell_valign'', VStr (str ''M'')),
      (str ''cell_border'', VStr (str ''1'')),
      (str ''cell_padding'', VInt 2),
      (str ''styles'', VDict
         [(str ''font'', VStr (str ''Vazir'')),
          (str ''align'', VStr (str ''R'')),
          (str ''valign'', VStr (str ''M'')),
          (str ''font_size'', VInt 10),
          (str ''wrap_text'', VBool True)]),
      (str ''head_styles'', VDict
         [(str ''font'', VStr (str ''Vazir'')),
          (str ''font_size'', VInt 11),
          (str ''font_style'', VStr (str ''B'')),
          (str ''fill_color'', VTuple [200, 200, 200]),
          (str ''text_color'', VTuple [0, 0, 0]),
          (str ''align'', VStr (str ''C'')),
          (str ''valign'', VStr (str ''M'')),
          (str ''min_cell_height'', VInt 15)])]"

text \<open>A library statement inside the function.\<close>

definition from_lib :: "lib_exn stmt \<Rightarrow> exn stmt" where
  "from_lib p w = (case p w of (r, w') \<Rightarrow> (map_option LibraryError r, w'))"

text \<open>Lines 69 to 138: the body of the loop over the week types.\<close>

definition render_week :: "fpdf \<Rightarrow> pystr \<Rightarrow> week_info \<Rightarrow> exn stmt" where
  "render_week lib full_name week =
     seq (from_lib (invoke lib AddPage))
    (seq (from_lib (header lib full_name (wk_label week) (wk_emoji week)))
         (\<lambda>w. case table_data (wk_data week) of
                 Inl e \<Rightarrow> (Some e, w)
               | Inr rows \<Rightarrow>
                   seq (from_lib
                          (\<lambda>w. invoke lib (SetFont (font_family_of lib (calls w)) (str '''') 10) w))
                       (from_lib (invoke lib (AutoTable rows table_headers col_widths table_options)))
                     w))"

fun render_weeks :: "fpdf \<Rightarrow> pystr \<Rightarrow> week_info list \<Rightarrow> exn stmt" where
  "render_weeks lib full_name [] = (\<lambda>w. (None, w))"
| "render_weeks lib full_name (week # weeks) =
     seq (render_week lib full_name week) (render_weeks lib full_name weeks)"

text \<open>Lines 141 to 147: \<^verbatim>\<open>output(dest='S')\<close> is called and encoded twice; the first
  result is dropped. The \<^verbatim>\<open>io.BytesIO()\<close> of line 142 is never used.\<close>

definition output_encoded ::
  "fpdf \<Rightarrow> (pystr \<Rightarrow> exn + byte list) \<Rightarrow> world \<Rightarrow> (exn + byte list) \<times> world" where
  "output_encoded lib encode w =
     (case invoke lib (Output (str ''S'')) w of
        (Some e, w') \<Rightarrow> (Inl (LibraryError e), w')
      | (None, w') \<Rightarrow> (encode (output_of lib (calls w)), w'))"

definition generate_schedule_pdf ::
  "fpdf \<Rightarrow> user_data \<Rightarrow> world \<Rightarrow> (exn + byte list) \<times> world" where
  "generate_schedule_pdf lib ud w =
     (let full_name = (case fullName ud of None \<Rightarrow> [0x6A9, 0x627, 0x631, 0x628, 0x631] | Some n \<Rightarrow> n);
          sch = (case schedule ud of
                   None \<Rightarrow> \<lparr>odd_week_schedule = None, even_week_schedule = None\<rparr>
                 | Some s \<Rightarrow> s)
      in case seq (from_lib (invoke lib (NewPDF (str ''L'') (str ''mm'') (str ''A4''))))
             (seq (from_lib (invoke lib AliasNbPages))
                  (render_weeks lib full_name (week_types sch))) w of
           (Some e, w1) \<Rightarrow> (Inl e, w1)
         | (None, w1) \<Rightarrow>
             (case output_encoded lib encode_latin1 w1 of
                (Inl e, w2) \<Rightarrow> (Inl e, w2)
              | (Inr dropped, w2) \<Rightarrow> output_encoded lib encode_utf8 w2))"

section \<open>Notions used to state the properties\<close>

text \<open>What lines 94 to 97 do to one cell, and one loop iteration as a function on rows.\<close>

definition add_to_cell :: "pystr \<Rightarrow> pystr \<Rightarrow> pystr" where
  "add_to_cell c t = (if c = str ''-'' then t else c @ SEPARATOR @ t)"

definition place_pure :: "pystr list \<Rightarrow> lesson \<Rightarrow> pystr list" where
  "place_pure row l =
     (if slot_index l = - 1 then row
      else row[nat (slot_index l) := add_to_cell (row ! nat (slot_index l)) (lesson_text l)])"

text \<open>\<^verbatim>\<open>sep.join(ts)\<close>: the texts in order, with the separator between neighbours.\<close>

fun join :: "pystr \<Rightarrow> pystr list \<Rightarrow> pystr" where
  "join sep [] = []"
| "join sep [t] = t"
| "join sep (t # u # ts) = t @ sep @ join sep (u # ts)"

text \<open>The texts of the lessons that go to column \<open>k\<close>, in input order; the cell they
  give; the row of a day.\<close>

definition slot_texts :: "nat \<Rightarrow> lesson list \<Rightarrow> pystr list" where
  "slot_texts k ls = map lesson_text (filter (\<lambda>l. slot_index l = int k) ls)"

definition cell_of :: "pystr list \<Rightarrow> pystr" where
  "cell_of ts = (if ts = [] then str ''-'' else join SEPARATOR ts)"

definition row_of :: "pystr \<Rightarrow> lesson list \<Rightarrow> pystr list" where
  "row_of day_fa ls = day_fa # map (\<lambda>k. cell_of (slot_texts (Suc k) ls)) [0..<5]"

text \<open>
  Numerical time: \<open>hhmm h m\<close> is the zero-padded text \<^verbatim>\<open>HH:MM\<close> of hour \<open>h\<close> and minute
  \<open>m\<close>, \<open>minutes_of\<close> reads such a text as minutes since midnight, and
  \<open>slot_scan_numeric\<close> is the scan of the slots with the bounds compared as numbers.
\<close>

definition hhmm :: "nat \<Rightarrow> nat \<Rightarrow> pystr" where
  "hhmm h m = [48 + h div 10, 48 + h mod 10, 58, 48 + m div 10, 48 + m mod 10]"

fun minutes_of :: "pystr \<Rightarrow> nat" where
  "minutes_of [a, b, c, d, e] = ((a - 48) * 10 + (b - 48)) * 60 + (d - 48) * 10 + (e - 48)"
| "minutes_of t = 0"

definition in_slot_numeric :: "nat \<Rightarrow> slot_info \<Rightarrow> bool" where
  "in_slot_numeric x info \<longleftrightarrow> minutes_of (slot_start info) \<le> x \<and> x < minutes_of (slot_end info)"

fun slot_scan_numeric :: "nat \<Rightarrow> nat \<Rightarrow> (pystr \<times> slot_info) list \<Rightarrow> int" where
  "slot_scan_numeric x i [] = - 1"
| "slot_scan_numeric x i ((slot_name, info) # rest) =
     (if in_slot_numeric x info then int i + 1 else slot_scan_numeric x (Suc i) rest)"

section \<open>Sample inputs\<close>

definition lesson_math :: lesson where
  "lesson_math =
     [str ''lesson'' \<mapsto> str ''Math'', str ''location'' \<mapsto> str ''R1'',
      str ''start_time'' \<mapsto> str ''08:30'']"

definition lesson_bare :: lesson where
  "lesson_bare = [str ''start_time'' \<mapsto> str ''09:15'']"

definition lesson_art :: lesson where
  "lesson_art =
     [str ''lesson'' \<mapsto> str ''Art'', str ''location'' \<mapsto> str ''R2'',
      str ''start_time'' \<mapsto> str ''10:00'']"

definition lesson_gap :: lesson where
  "lesson_gap = [str ''lesson'' \<mapsto> str ''Gym'', str ''start_time'' \<mapsto> str ''12:30'']"

definition example_week :: week_schedule where
  "example_week =
     [str ''saturday'' \<mapsto> [lesson_math, lesson_bare, lesson_art, lesson_gap],
      str ''friday'' \<mapsto> [lesson_math]]"

definition blank_row :: "pystr list" where
  "blank_row = [0x634, 0x646, 0x628, 0x647] # replicate 5 (str ''-'')"

section \<open>Notions used to state the properties of the rendering\<close>

text \<open>The calls that load the Vazirmatn font, the cells of the header, and the calls that
  put content on a page.\<close>

definition add_vazir :: call where
  "add_vazir = AddFont (str ''Vazir'') (str '''') (str ''Vazirmatn-Regular.ttf'') True"

definition set_vazir :: "int \<Rightarrow> call" where
  "set_vazir n = SetFont (str ''Vazir'') (str '''') n"

definition header_cells :: "pystr \<Rightarrow> pystr \<Rightarrow> pystr \<Rightarrow> call list" where
  "header_cells full_name week_label week_emoji =
     [Cell 0 10
        [0x628, 0x631, 0x646, 0x627, 0x645, 0x647, 0x20, 0x647, 0x641, 0x62A, 0x6AF, 0x6CC]
        0 1 (str ''C''),
      Cell 0 10 ([0x646, 0x627, 0x645, 0x3A, 0x20] @ full_name) 0 1 (str ''C''),
      Cell 0 10 ([0x647, 0x641, 0x62A, 0x647, 0x20] @ week_label @ str '' '' @ week_emoji)
        0 1 (str ''C'')]"

fun is_content :: "call \<Rightarrow> bool" where
  "is_content AddPage = True"
| "is_content (Cell w h txt border ln align) = True"
| "is_content (AutoTable rows headings widths options) = True"
| "is_content c = False"

text \<open>The content of the page of one week type: a new page, the header cells with the
  label of the week type, and the table of the given rows.\<close>

definition page_content :: "pystr \<Rightarrow> pystr \<Rightarrow> pystr \<Rightarrow> pystr list list \<Rightarrow> call list" where
  "page_content full_name week_label week_emoji rows =
     AddPage # header_cells full_name week_label week_emoji
       @ [AutoTable rows table_headers col_widths table_options]"

text \<open>The name and the two week schedules that \<^verbatim>\<open>generate_schedule_pdf\<close> reads from the
  user record (lines 57, 58, 64 and 65).\<close>

definition name_of :: "user_data \<Rightarrow> pystr" where
  "name_of ud = (case fullName ud of None \<Rightarrow> [0x6A9, 0x627, 0x631, 0x628, 0x631] | Some n \<Rightarrow> n)"

definition odd_week_of :: "user_data \<Rightarrow> week_schedule" where
  "odd_week_of ud =
     (case schedule ud of
        None \<Rightarrow> Map.empty
      | Some s \<Rightarrow> (case odd_week_schedule s of None \<Rightarrow> Map.empty | Some d \<Rightarrow> d))"

definition even_week_of :: "user_data \<Rightarrow> week_schedule" where
  "even_week_of ud =
     (case schedule ud of
        None \<Rightarrow> Map.empty
      | Some s \<Rightarrow> (case even_week_schedule s of None \<Rightarrow> Map.empty | Some d \<Rightarrow> d))"

text \<open>The rows of the table of a week schedule, and the world after further library
  calls.\<close>

definition table_rows :: "week_schedule \<Rightarrow> pystr list list" where
  "table_rows week =
     map (\<lambda>(day_en, day_fa). row_of day_fa (day_lessons week day_en))
       (zip ENGLISH_WEEKDAYS PERSIAN_WEEKDAYS)"

definition emit :: "call list \<Rightarrow> world \<Rightarrow> world" where
  "emit cs w = w\<lparr>calls := calls w @ cs\<rparr>"







text \<open>
  Sample libraries.
  \<^item> \<open>hook_lib\<close>: \<^verbatim>\<open>add_page()\<close> raises the \<^verbatim>\<open>TypeError\<close> of the hook call, every other call
    returns.
  \<^item> \<open>no_vazir_lib\<close>: loading the Vazirmatn font raises an \<^verbatim>\<open>Exception\<close>, every other call
    returns.
  \<^item> \<open>core_font_lib\<close>: \<^verbatim>\<open>add_font\<close> raises an \<^verbatim>\<open>Exception\<close>, and so does \<^verbatim>\<open>cell\<close> on a text
    with a character outside Latin-1, as a standard font such as Arial has none of these.
  \<^item> \<open>interrupt_lib\<close>: \<^verbatim>\<open>add_font\<close> is interrupted (\<^verbatim>\<open>KeyboardInterrupt\<close>, whose \<^verbatim>\<open>str\<close> is
    empty).
\<close>

definition hook_lib :: fpdf where
  "hook_lib =
     \<lparr>raises = (\<lambda>h c. if c = AddPage
                       then Some (Exception (str ''header() missing 3 required positional arguments''))
                       else None),
      font_family_of = (\<lambda>h. str ''''), page_no_of = (\<lambda>h. 0),
      output_of = (\<lambda>h. str ''%PDF-1.3'')\<rparr>"




definition example_user :: user_data where
  "example_user =
     \<lparr>fullName = Some (str ''Sara''),
      schedule = Some \<lparr>odd_week_schedule = Some example_week, even_week_schedule = None\<rparr>\<rparr>"

definition world0 :: world where
  "world0 = \<lparr>calls = [], stderr = [], stdout = []\<rparr>"

section \<open>The row of a day\<close>

lemma slot_scan_range:
  "slot_scan st i slots = - 1 \<or> (int i < slot_scan st i slots \<and> slot_scan st i slots \<le> int i + int (length slots))"
  by (induction st i slots rule: slot_scan.induct) auto

lemma length_TIME_SLOTS: "length TIME_SLOTS = 5"
  by (simp add: TIME_SLOTS_def)

lemma slot_index_range: "slot_index l = - 1 \<or> (1 \<le> slot_index l \<and> slot_index l \<le> 5)"
  using slot_scan_range [of "l (str ''start_time'')" 0 TIME_SLOTS]
  by (auto simp: slot_index_def length_TIME_SLOTS)

lemma slot_index_not_0: "slot_index l \<noteq> 0"
  using slot_index_range [of l] by auto

lemma place_lesson_pure:
  assumes "length row = 6"
  shows "place_lesson row l = Inr (place_pure row l)"
  using slot_index_range [of l] assms
  by (auto simp: place_lesson_def place_pure_def getitem_def setitem_def add_to_cell_def Let_def)

lemma length_place_pure: "length (place_pure row l) = length row"
  by (simp add: place_pure_def)

lemma place_lessons_foldl:
  "length row = 6 \<Longrightarrow> place_lessons row ls = Inr (foldl place_pure row ls)"
  by (induction ls arbitrary: row) (simp_all add: place_lesson_pure length_place_pure)

lemma length_foldl_place_pure: "length (foldl place_pure row ls) = length row"
  by (induction ls arbitrary: row) (simp_all add: length_place_pure)

lemma nth_place_pure:
  "k < length row \<Longrightarrow>
   place_pure row l ! k =
     (if slot_index l = int k then add_to_cell (row ! k) (lesson_text l) else row ! k)"
  using slot_index_range [of l]
  by (auto simp: place_pure_def nth_list_update)

lemma nth_foldl_place_pure:
  "k < length row \<Longrightarrow>
   foldl place_pure row ls ! k = foldl add_to_cell (row ! k) (slot_texts k ls)"
  by (induction ls arbitrary: row)
     (simp_all add: slot_texts_def nth_place_pure length_place_pure)

lemma place_lesson_other:
  assumes "length row = 6" and "j < 6" and "slot_index l \<noteq> int j"
  shows "\<exists>row'. place_lesson row l = Inr row' \<and> row' ! j = row ! j"
  using assms by (simp add: place_lesson_pure nth_place_pure)

lemma lesson_text_not_dash: "lesson_text l \<noteq> str ''-''"
proof
  assume h: "lesson_text l = str ''-''"
  then have "length (lesson_text l) = 1" by (simp add: str_def)
  then have "lesson_text l = str ''\<newline>''"
    by (auto simp: lesson_text_def str_def)
  with h show False by (simp add: str_def)
qed

lemma SEPARATOR_length: "length SEPARATOR = 5"
  by (simp add: SEPARATOR_def str_def)

lemma foldl_add_to_cell:
  "c \<noteq> str ''-'' \<Longrightarrow> foldl add_to_cell c ts = c @ concat (map ((@) SEPARATOR) ts)"
proof (induction ts arbitrary: c)
  case Nil
  then show ?case by simp
next
  case (Cons t ts)
  have "length (c @ SEPARATOR @ t) \<noteq> length (str ''-'')"
    by (simp add: SEPARATOR_length str_def)
  then have "c @ SEPARATOR @ t \<noteq> str ''-''" by metis
  with Cons show ?case by (simp add: add_to_cell_def)
qed

lemma join_concat: "join sep (t # ts) = t @ concat (map ((@) sep) ts)"
  by (induction ts arbitrary: t) simp_all

lemma join_contains: "t \<in> set ts \<Longrightarrow> \<exists>pre suf. join sep ts = pre @ t @ suf"
proof (induction sep ts rule: join.induct)
  case (1 sep)
  then show ?case by simp
next
  case (2 sep u)
  then have "join sep [u] = [] @ t @ []" by simp
  then show ?case by blast
next
  case (3 sep u v ts)
  show ?case
  proof (cases "t = u")
    case True
    then have "join sep (u # v # ts) = [] @ t @ (sep @ join sep (v # ts))" by simp
    then show ?thesis by blast
  next
    case False
    with 3 obtain pre suf where "join sep (v # ts) = pre @ t @ suf" by auto
    then have "join sep (u # v # ts) = (u @ sep @ pre) @ t @ suf" by simp
    then show ?thesis by blast
  qed
qed

lemma foldl_add_to_cell_dash:
  "\<forall>t\<in>set ts. t \<noteq> str ''-'' \<Longrightarrow> foldl add_to_cell (str ''-'') ts = cell_of ts"
proof (cases ts)
  case Nil
  then show ?thesis by (simp add: cell_of_def)
next
  case (Cons t us)
  assume "\<forall>t\<in>set ts. t \<noteq> str ''-''"
  with Cons have "t \<noteq> str ''-''" by simp
  then show ?thesis using Cons
    by (simp add: cell_of_def add_to_cell_def foldl_add_to_cell join_concat)
qed

lemma slot_texts_not_dash: "\<forall>t\<in>set (slot_texts k ls). t \<noteq> str ''-''"
  by (auto simp: slot_texts_def lesson_text_not_dash)

lemma slot_texts_0: "slot_texts 0 ls = []"
  by (simp add: slot_texts_def slot_index_not_0)

lemma slot_texts_skip:
  "slot_index l = - 1 \<Longrightarrow> slot_texts k (ls1 @ l # ls2) = slot_texts k (ls1 @ ls2)"
  by (simp add: slot_texts_def)

lemma slot_texts_other:
  "slot_index l \<noteq> int k \<Longrightarrow> slot_texts k (ls1 @ l # ls2) = slot_texts k (ls1 @ ls2)"
  by (simp add: slot_texts_def)

lemma build_row_eq:
  "build_row week day_en day_fa = Inr (row_of day_fa (day_lessons week day_en))"
proof -
  let ?row = "day_fa # replicate (length TIME_SLOTS) (str ''-'')"
  let ?ls = "day_lessons week day_en"
  have len: "length ?row = 6" by (simp add: length_TIME_SLOTS)
  have "foldl place_pure ?row ?ls = row_of day_fa ?ls"
  proof (rule nth_equalityI)
    show "length (foldl place_pure ?row ?ls) = length (row_of day_fa ?ls)"
      by (simp add: length_foldl_place_pure row_of_def length_TIME_SLOTS)
  next
    fix k assume "k < length (foldl place_pure ?row ?ls)"
    then have k: "k < 6" by (simp add: length_foldl_place_pure length_TIME_SLOTS)
    show "foldl place_pure ?row ?ls ! k = row_of day_fa ?ls ! k"
    proof (cases k)
      case 0
      then show ?thesis
        by (simp add: nth_foldl_place_pure slot_texts_0 row_of_def)
    next
      case (Suc j)
      with k have j: "j < 5" by simp
      have "foldl place_pure ?row ?ls ! k = foldl add_to_cell (?row ! k) (slot_texts k ?ls)"
        using k by (simp add: nth_foldl_place_pure length_TIME_SLOTS)
      also have "?row ! k = str ''-''" using Suc j by (simp add: length_TIME_SLOTS)
      also have "foldl add_to_cell (str ''-'') (slot_texts k ?ls) = cell_of (slot_texts k ?ls)"
        by (rule foldl_add_to_cell_dash) (rule slot_texts_not_dash)
      also have "\<dots> = row_of day_fa ?ls ! k" using Suc j by (simp add: row_of_def)
      finally show ?thesis .
    qed
  qed
  then show ?thesis
    using place_lessons_foldl [OF len, of ?ls] by (simp add: build_row_def)
qed

lemma row_of_nth: "k < 5 \<Longrightarrow> row_of day_fa ls ! Suc k = cell_of (slot_texts (Suc k) ls)"
  by (simp add: row_of_def)

lemma row_of_skip:
  "slot_index l = - 1 \<Longrightarrow> row_of day_fa (ls1 @ l # ls2) = row_of day_fa (ls1 @ ls2)"
  by (simp add: row_of_def slot_texts_skip)

section \<open>The table of a week\<close>

lemma length_weekdays: "length ENGLISH_WEEKDAYS = 5" "length PERSIAN_WEEKDAYS = 5"
  by (simp_all add: ENGLISH_WEEKDAYS_def PERSIAN_WEEKDAYS_def)

lemma table_loop_eq:
  "table_loop week days acc =
     Inr (acc @ map (\<lambda>(day_en, day_fa). row_of day_fa (day_lessons week day_en)) days)"
  by (induction week days acc rule: table_loop.induct) (simp_all add: build_row_eq)

lemma table_data_eq:
  "table_data week =
     Inr (map (\<lambda>(day_en, day_fa). row_of day_fa (day_lessons week day_en))
            (zip ENGLISH_WEEKDAYS PERSIAN_WEEKDAYS))"
  by (simp add: table_data_def table_loop_eq)

lemma table_data_rows: "table_data week = Inr (table_rows week)"
  by (simp add: table_data_eq table_rows_def)

lemma table_data_nth:
  assumes "d < 5"
  shows "\<exists>rows. table_data week = Inr rows \<and> length rows = 5 \<and>
           rows ! d = row_of (PERSIAN_WEEKDAYS ! d) (day_lessons week (ENGLISH_WEEKDAYS ! d))"
  using assms by (simp add: table_data_eq length_weekdays)

lemma table_data_cong:
  assumes "\<forall>day\<in>set ENGLISH_WEEKDAYS. day_lessons w1 day = day_lessons w2 day"
  shows "table_data w1 = table_data w2"
proof -
  have "map (\<lambda>(day_en, day_fa). row_of day_fa (day_lessons w1 day_en))
          (zip ENGLISH_WEEKDAYS PERSIAN_WEEKDAYS) =
        map (\<lambda>(day_en, day_fa). row_of day_fa (day_lessons w2 day_en))
          (zip ENGLISH_WEEKDAYS PERSIAN_WEEKDAYS)"
  proof (rule map_cong [OF refl])
    fix p assume "p \<in> set (zip ENGLISH_WEEKDAYS PERSIAN_WEEKDAYS)"
    then have "fst p \<in> set ENGLISH_WEEKDAYS" by (metis prod.collapse set_zip_leftD)
    with assms have "day_lessons w1 (fst p) = day_lessons w2 (fst p)" by blast
    then show "(case p of (day_en, day_fa) \<Rightarrow> row_of day_fa (day_lessons w1 day_en)) =
               (case p of (day_en, day_fa) \<Rightarrow> row_of day_fa (day_lessons w2 day_en))"
      by (cases p) simp
  qed
  then show ?thesis by (simp add: table_data_eq)
qed

lemma day_lessons_upd:
  "day_lessons (week(day \<mapsto> ls)) day' = (if day' = day then ls else day_lessons week day')"
  by (simp add: day_lessons_def)

lemma table_rows_shape:
  "map length (table_rows week) = [6, 6, 6, 6, 6]" "map hd (table_rows week) = PERSIAN_WEEKDAYS"
  by (simp_all add: table_rows_def ENGLISH_WEEKDAYS_def PERSIAN_WEEKDAYS_def row_of_def)

lemma length_table_headers: "length table_headers = 6"
  by (simp add: table_headers_def TIME_SLOTS_def)

section \<open>The slot of a start time\<close>

lemma bounds:
  "str ''08:00'' < str ''10:00''" "str ''10:00'' < str ''12:00''"
  "str ''12:00'' < str ''13:00''" "str ''13:00'' < str ''15:00''"
  "str ''15:00'' < str ''17:00''" "str ''17:00'' < str ''19:00''"
  by (simp_all add: str_def)

lemma bound_nonempty:
  "str ''08:00'' \<noteq> []" "str ''10:00'' \<noteq> []" "str ''13:00'' \<noteq> []"
  "str ''15:00'' \<noteq> []" "str ''17:00'' \<noteq> []"
  by (simp_all add: str_def)

lemma less_5_cases: "k < 5 \<Longrightarrow> k = 0 \<or> k = 1 \<or> k = 2 \<or> k = 3 \<or> k = (4::nat)"
  by arith

lemma in_slot_Some:
  "k < 5 \<Longrightarrow>
   in_slot (Some t) (snd (TIME_SLOTS ! k)) \<longleftrightarrow>
     slot_start (snd (TIME_SLOTS ! k)) \<le> t \<and> t < slot_end (snd (TIME_SLOTS ! k))"
  using bound_nonempty
  by (auto simp: in_slot_def TIME_SLOTS_def dest!: less_5_cases)

lemma slot_scan_Some:
  "slot_scan (Some t) 0 TIME_SLOTS =
     (if str ''08:00'' \<le> t \<and> t < str ''10:00'' then 1
      else if str ''10:00'' \<le> t \<and> t < str ''12:00'' then 2
      else if str ''13:00'' \<le> t \<and> t < str ''15:00'' then 3
      else if str ''15:00'' \<le> t \<and> t < str ''17:00'' then 4
      else if str ''17:00'' \<le> t \<and> t < str ''19:00'' then 5
      else - 1)"
  using bound_nonempty
  by (auto simp: TIME_SLOTS_def in_slot_def)

lemma slot_scan_no_match:
  "list_all (\<lambda>info. \<not> in_slot st info) (map snd slots) \<Longrightarrow> slot_scan st i slots = - 1"
  by (induction st i slots rule: slot_scan.induct) simp_all

lemma slot_index_iff:
  assumes "k < 5"
  shows "slot_index l = int (Suc k) \<longleftrightarrow> in_slot (l (str ''start_time'')) (snd (TIME_SLOTS ! k))"
proof (cases "l (str ''start_time'')")
  case None
  then show ?thesis by (simp add: slot_index_def in_slot_def TIME_SLOTS_def)
next
  case (Some t)
  have "slot_scan (Some t) 0 TIME_SLOTS = int (Suc k) \<longleftrightarrow>
        slot_start (snd (TIME_SLOTS ! k)) \<le> t \<and> t < slot_end (snd (TIME_SLOTS ! k))"
    using less_5_cases [OF assms] bounds
    unfolding slot_scan_Some
    by (elim disjE) (auto simp: TIME_SLOTS_def)
  then show ?thesis using Some assms by (simp add: slot_index_def in_slot_Some)
qed

lemma slot_index_iff':
  "k < 5 \<Longrightarrow>
   slot_index l = 1 + int k \<longleftrightarrow> in_slot (l (str ''start_time'')) (snd (TIME_SLOTS ! k))"
  using slot_index_iff [of k l] by simp

lemma slot_texts_in_slot:
  "k < 5 \<Longrightarrow>
   slot_texts (Suc k) ls =
     map lesson_text (filter (\<lambda>l. in_slot (l (str ''start_time'')) (snd (TIME_SLOTS ! k))) ls)"
  by (simp add: slot_texts_def slot_index_iff')

lemma cell_contains:
  assumes "k < 5" and "l \<in> set ls"
      and "in_slot (l (str ''start_time'')) (snd (TIME_SLOTS ! k))"
  shows "\<exists>pre suf. row_of day_fa ls ! Suc k = pre @ lesson_text l @ suf"
proof -
  have "slot_index l = int (Suc k)" using assms by (simp add: slot_index_iff')
  with assms have mem: "lesson_text l \<in> set (slot_texts (Suc k) ls)"
    by (simp add: slot_texts_def)
  then have "slot_texts (Suc k) ls \<noteq> []" by auto
  with join_contains [OF mem, of SEPARATOR] show ?thesis
    using assms by (simp add: row_of_nth cell_of_def)
qed

lemma slots_enumerated:
  "map snd TIME_SLOTS =
     [snd (TIME_SLOTS ! 0), snd (TIME_SLOTS ! 1), snd (TIME_SLOTS ! 2), snd (TIME_SLOTS ! 3),
      snd (TIME_SLOTS ! 4)]"
  by (simp add: TIME_SLOTS_def)

lemma matching_slot_unique:
  assumes "k < 5" and "in_slot (l (str ''start_time'')) (snd (TIME_SLOTS ! k))"
  shows "length (filter (in_slot (l (str ''start_time''))) (map snd TIME_SLOTS)) = 1"
proof -
  have idx: "slot_index l = 1 + int k" using assms by (simp add: slot_index_iff')
  have *: "in_slot (l (str ''start_time'')) (snd (TIME_SLOTS ! j)) \<longleftrightarrow> j = k" if "j < 5" for j
    using slot_index_iff' [OF that, of l] idx by auto
  have "in_slot (l (str ''start_time'')) (snd (TIME_SLOTS ! 0)) \<longleftrightarrow> 0 = k"
       "in_slot (l (str ''start_time'')) (snd (TIME_SLOTS ! 1)) \<longleftrightarrow> 1 = k"
       "in_slot (l (str ''start_time'')) (snd (TIME_SLOTS ! 2)) \<longleftrightarrow> 2 = k"
       "in_slot (l (str ''start_time'')) (snd (TIME_SLOTS ! 3)) \<longleftrightarrow> 3 = k"
       "in_slot (l (str ''start_time'')) (snd (TIME_SLOTS ! 4)) \<longleftrightarrow> 4 = k"
    by (simp_all add: *)
  then show ?thesis
    unfolding slots_enumerated using less_5_cases [OF \<open>k < 5\<close>] by auto
qed

lemma gaps_iff:
  "list_all (\<lambda>info. \<not> (slot_start info \<le> t \<and> t < slot_end info)) (map snd TIME_SLOTS) \<longleftrightarrow>
     t < str ''08:00'' \<or> (str ''12:00'' \<le> t \<and> t < str ''13:00'') \<or> str ''19:00'' \<le> t"
  using bounds by (auto simp: TIME_SLOTS_def)

lemma unplaced_slot_index:
  assumes "l (str ''start_time'') = None \<or> l (str ''start_time'') = Some [] \<or>
           (\<exists>t. l (str ''start_time'') = Some t \<and>
                list_all (\<lambda>info. \<not> (slot_start info \<le> t \<and> t < slot_end info))
                  (map snd TIME_SLOTS))"
  shows "slot_index l = - 1"
proof -
  have "list_all (\<lambda>info. \<not> in_slot (l (str ''start_time'')) info) (map snd TIME_SLOTS)"
    using assms by (auto simp: in_slot_def list_all_iff)
  then show ?thesis unfolding slot_index_def by (rule slot_scan_no_match)
qed

section \<open>Lexicographic and numerical order of times\<close>

lemma lex_pair_less:
  fixes qa ra qb rb :: nat
  assumes "ra < 10" and "rb < 10"
  shows "(qa < qb \<or> qa = qb \<and> ra < rb) \<longleftrightarrow> 10 * qa + ra < 10 * qb + rb"
  using assms by arith

lemma two_digit_less:
  "(a div 10 < b div 10 \<or> a div 10 = b div 10 \<and> a mod 10 < b mod 10) \<longleftrightarrow> a < (b::nat)"
  using lex_pair_less [of "a mod 10" "b mod 10" "a div 10" "b div 10"] by simp

lemma two_digit_eq: "a div 10 = b div 10 \<and> a mod 10 = b mod 10 \<longleftrightarrow> a = (b::nat)"
  by (metis div_mult_mod_eq)

lemma hhmm_less_unfold:
  "hhmm h m < hhmm h' m' \<longleftrightarrow>
        (h div 10 < h' div 10 \<or> h div 10 = h' div 10 \<and> h mod 10 < h' mod 10) \<or>
        (h div 10 = h' div 10 \<and> h mod 10 = h' mod 10) \<and>
        (m div 10 < m' div 10 \<or> m div 10 = m' div 10 \<and> m mod 10 < m' mod 10)"
  unfolding hhmm_def Cons_less_Cons by simp blast

lemma hour_minute_less:
  fixes h m h' m' :: nat
  assumes "m < 60" and "m' < 60"
  shows "(h < h' \<or> h = h' \<and> m < m') \<longleftrightarrow> 60 * h + m < 60 * h' + m'"
  using assms by arith

lemma hhmm_less:
  assumes "m < 60" and "m' < 60"
  shows "hhmm h m < hhmm h' m' \<longleftrightarrow> 60 * h + m < 60 * h' + m'"
proof -
  have "hhmm h m < hhmm h' m' \<longleftrightarrow> h < h' \<or> h = h' \<and> m < m'"
    unfolding hhmm_less_unfold two_digit_less two_digit_eq ..
  also have "\<dots> \<longleftrightarrow> 60 * h + m < 60 * h' + m'"
    by (rule hour_minute_less [OF assms])
  finally show ?thesis .
qed

lemma hhmm_le:
  assumes "m < 60" and "m' < 60"
  shows "hhmm h m \<le> hhmm h' m' \<longleftrightarrow> 60 * h + m \<le> 60 * h' + m'"
proof -
  have "hhmm h m \<le> hhmm h' m' \<longleftrightarrow> \<not> hhmm h' m' < hhmm h m"
    by (rule not_less [symmetric])
  also have "\<dots> \<longleftrightarrow> \<not> 60 * h' + m' < 60 * h + m"
    unfolding hhmm_less [OF assms(2) assms(1)] ..
  also have "\<dots> \<longleftrightarrow> 60 * h + m \<le> 60 * h' + m'"
    by (rule not_less)
  finally show ?thesis .
qed

lemma boundaries_hhmm:
  "str ''08:00'' = hhmm 8 0" "str ''10:00'' = hhmm 10 0" "str ''12:00'' = hhmm 12 0"
  "str ''13:00'' = hhmm 13 0" "str ''15:00'' = hhmm 15 0" "str ''17:00'' = hhmm 17 0"
  "str ''19:00'' = hhmm 19 0"
  by (simp_all add: str_def hhmm_def)

lemma minutes_of_boundaries:
  "minutes_of (str ''08:00'') = 480" "minutes_of (str ''10:00'') = 600"
  "minutes_of (str ''12:00'') = 720" "minutes_of (str ''13:00'') = 780"
  "minutes_of (str ''15:00'') = 900" "minutes_of (str ''17:00'') = 1020"
  "minutes_of (str ''19:00'') = 1140"
  by (simp_all add: str_def)

lemma hhmm_nonempty: "hhmm h m \<noteq> []"
  by (simp add: hhmm_def)

lemma minutes_of_hhmm: "minutes_of (hhmm h m) = 60 * h + m"
  by (simp add: hhmm_def)

lemma in_slot_boundary:
  assumes "m < 60"
  shows "in_slot (Some (hhmm h m)) \<lparr>slot_start = hhmm a 0, slot_end = hhmm b 0\<rparr> \<longleftrightarrow>
           60 * a \<le> 60 * h + m \<and> 60 * h + m < 60 * b"
  using hhmm_le [of 0 m a h] hhmm_less [of m 0 h b] assms
  by (simp add: in_slot_def hhmm_nonempty)

lemma in_slot_numeric_boundary:
  "in_slot_numeric x \<lparr>slot_start = hhmm a 0, slot_end = hhmm b 0\<rparr> \<longleftrightarrow>
     60 * a \<le> x \<and> x < 60 * b"
  by (simp add: in_slot_numeric_def minutes_of_hhmm)

lemma TIME_SLOTS_hhmm:
  "map snd TIME_SLOTS =
     [\<lparr>slot_start = hhmm 8 0, slot_end = hhmm 10 0\<rparr>,
      \<lparr>slot_start = hhmm 10 0, slot_end = hhmm 12 0\<rparr>,
      \<lparr>slot_start = hhmm 13 0, slot_end = hhmm 15 0\<rparr>,
      \<lparr>slot_start = hhmm 15 0, slot_end = hhmm 17 0\<rparr>,
      \<lparr>slot_start = hhmm 17 0, slot_end = hhmm 19 0\<rparr>]"
  by (simp add: TIME_SLOTS_def boundaries_hhmm)

lemma slot_scan_numeric_eq:
  "list_all (\<lambda>info. in_slot st info = in_slot_numeric x info) (map snd slots) \<Longrightarrow>
   slot_scan st i slots = slot_scan_numeric x i slots"
  by (induction st i slots rule: slot_scan.induct) simp_all

lemma in_slot_agrees:
  assumes "m < 60"
  shows "list_all (\<lambda>info. in_slot (Some (hhmm h m)) info = in_slot_numeric (60 * h + m) info)
           (map snd TIME_SLOTS)"
  unfolding TIME_SLOTS_hhmm
  by (simp add: in_slot_boundary [OF assms] in_slot_numeric_boundary)

lemma bounds_agree:
  assumes "m < 60"
  shows "list_all (\<lambda>info.
             (slot_start info \<le> hhmm h m \<longleftrightarrow> minutes_of (slot_start info) \<le> 60 * h + m) \<and>
             (hhmm h m < slot_end info \<longleftrightarrow> 60 * h + m < minutes_of (slot_end info)))
           (map snd TIME_SLOTS)"
  unfolding TIME_SLOTS_hhmm
  using hhmm_le [of 0 m _ h] hhmm_less [of m 0 h] assms
  by (simp add: minutes_of_hhmm)

section \<open>The sample inputs\<close>

lemma nth_slots:
  "snd (TIME_SLOTS ! 0) = \<lparr>slot_start = str ''08:00'', slot_end = str ''10:00''\<rparr>"
  "snd (TIME_SLOTS ! 1) = \<lparr>slot_start = str ''10:00'', slot_end = str ''12:00''\<rparr>"
  by (simp_all add: TIME_SLOTS_def)

lemma example_saturday:
  "day_lessons example_week (ENGLISH_WEEKDAYS ! 0) =
     [lesson_math, lesson_bare, lesson_art, lesson_gap]"
  by (simp add: day_lessons_def example_week_def ENGLISH_WEEKDAYS_def str_def)

lemma example_start_times:
  "lesson_math (str ''start_time'') = Some (str ''08:30'')"
  "lesson_bare (str ''start_time'') = Some (str ''09:15'')"
  "lesson_art (str ''start_time'') = Some (str ''10:00'')"
  "lesson_gap (str ''start_time'') = Some (str ''12:30'')"
  by (simp_all add: lesson_math_def lesson_bare_def lesson_art_def lesson_gap_def str_def)

lemma example_gap_unplaced:
  "list_all (\<lambda>info. \<not> (slot_start info \<le> str ''12:30'' \<and> str ''12:30'' < slot_end info))
     (map snd TIME_SLOTS)"
  by (simp add: TIME_SLOTS_def) (simp add: str_def)

lemma example_slot_indices:
  "slot_index lesson_math = 1" "slot_index lesson_bare = 1" "slot_index lesson_art = 2"
  "slot_index lesson_gap = - 1"
  by (simp_all add: slot_index_def example_start_times slot_scan_Some) (simp_all add: str_def)

lemma replicate_5: "replicate 5 x = [x, x, x, x, x]"
  by (simp add: eval_nat_numeral)

text \<open>The row of the sample Saturday, computed by the loop itself: two lessons share the
  first slot, one starts at its end and goes to the second, one falls into the gap.\<close>

lemma example_saturday_row:
  "build_row example_week (str ''saturday'') day_fa =
     Inr [day_fa,
          lesson_text lesson_math @ SEPARATOR @ lesson_text lesson_bare,
          lesson_text lesson_art, str ''-'', str ''-'', str ''-'']"
proof -
  have ls: "day_lessons example_week (str ''saturday'') =
              [lesson_math, lesson_bare, lesson_art, lesson_gap]"
    by (simp add: day_lessons_def example_week_def str_def)
  have p1: "place_lesson [day_fa, str ''-'', str ''-'', str ''-'', str ''-'', str ''-''] lesson_math =
              Inr [day_fa, lesson_text lesson_math, str ''-'', str ''-'', str ''-'', str ''-'']"
    by (simp add: place_lesson_def example_slot_indices getitem_def setitem_def)
  have p2: "place_lesson [day_fa, lesson_text lesson_math, str ''-'', str ''-'', str ''-'', str ''-'']
              lesson_bare =
              Inr [day_fa, lesson_text lesson_math @ SEPARATOR @ lesson_text lesson_bare,
                   str ''-'', str ''-'', str ''-'', str ''-'']"
    by (simp add: place_lesson_def example_slot_indices getitem_def setitem_def
        lesson_text_not_dash)
  have p3: "place_lesson [day_fa, c, str ''-'', str ''-'', str ''-'', str ''-''] lesson_art =
              Inr [day_fa, c, lesson_text lesson_art, str ''-'', str ''-'', str ''-'']" for c
    by (simp add: place_lesson_def example_slot_indices getitem_def setitem_def)
  have p4: "place_lesson row lesson_gap = Inr row" for row
    by (simp add: place_lesson_def example_slot_indices)
  show ?thesis
    by (simp add: build_row_def ls length_TIME_SLOTS replicate_5 p1 p2 p3 p4)
qed

section \<open>Properties of the table data\<close>

text \<open>
  Claim C1. For a week schedule (that of either page), a weekday \<open>d\<close> and a slot \<open>k\<close>:
  a lesson \<open>l\<close> in the day's list whose start time \<open>t\<close> has
  \<open>slot_start \<le> t < slot_end\<close> for that slot has its text inside the cell of column
  \<open>k + 1\<close> of the day's row. The bound is half open: placing a lesson \<open>l2\<close> that
  starts exactly at the slot's end leaves that cell of any row as it was.
\<close>

theorem lesson_placed_in_slot_cell:
  assumes "d < 5" and "k < 5"
      and "l \<in> set (day_lessons week (ENGLISH_WEEKDAYS ! d))"
      and "l (str ''start_time'') = Some t"
      and "slot_start (snd (TIME_SLOTS ! k)) \<le> t" and "t < slot_end (snd (TIME_SLOTS ! k))"
      and "l2 (str ''start_time'') = Some (slot_end (snd (TIME_SLOTS ! k)))"
      and "length row = 6"
  shows "(\<exists>rows pre suf. table_data week = Inr rows \<and>
            rows ! d ! Suc k = pre @ lesson_text l @ suf) \<and>
         (\<exists>row'. place_lesson row l2 = Inr row' \<and> row' ! Suc k = row ! Suc k)"
proof
  have "in_slot (l (str ''start_time'')) (snd (TIME_SLOTS ! k))"
    using assms by (simp add: in_slot_Some)
  from cell_contains [OF \<open>k < 5\<close> assms(3) this] table_data_nth [OF \<open>d < 5\<close>, of week]
  show "\<exists>rows pre suf. table_data week = Inr rows \<and> rows ! d ! Suc k = pre @ lesson_text l @ suf"
    by metis
next
  have "\<not> in_slot (l2 (str ''start_time'')) (snd (TIME_SLOTS ! k))"
    using assms by (simp add: in_slot_Some)
  then have "slot_index l2 \<noteq> int (Suc k)" using \<open>k < 5\<close> by (simp add: slot_index_iff')
  with place_lesson_other [of row "Suc k" l2] assms
  show "\<exists>row'. place_lesson row l2 = Inr row' \<and> row' ! Suc k = row ! Suc k" by simp
qed

theorem lesson_placed_in_slot_cell_witness:
  "lesson_math \<in> set (day_lessons example_week (ENGLISH_WEEKDAYS ! 0)) \<and>
   lesson_math (str ''start_time'') = Some (str ''08:30'') \<and>
   slot_start (snd (TIME_SLOTS ! 0)) \<le> str ''08:30'' \<and>
   str ''08:30'' < slot_end (snd (TIME_SLOTS ! 0)) \<and>
   lesson_art (str ''start_time'') = Some (slot_end (snd (TIME_SLOTS ! 0))) \<and>
   length blank_row = 6 \<and>
   (\<exists>rows pre suf. table_data example_week = Inr rows \<and>
      rows ! 0 ! Suc 0 = pre @ lesson_text lesson_math @ suf) \<and>
   (\<exists>row'. place_lesson blank_row lesson_art = Inr row' \<and> row' ! Suc 0 = blank_row ! Suc 0)"
proof -
  have h0: "(0::nat) < 5" by simp
  have h1: "lesson_math \<in> set (day_lessons example_week (ENGLISH_WEEKDAYS ! 0))"
    by (simp add: example_saturday)
  have h2: "lesson_math (str ''start_time'') = Some (str ''08:30'')"
    by (rule example_start_times)
  have h3: "slot_start (snd (TIME_SLOTS ! 0)) \<le> str ''08:30''"
    by (simp add: nth_slots str_def)
  have h4: "str ''08:30'' < slot_end (snd (TIME_SLOTS ! 0))"
    by (simp add: nth_slots str_def)
  have h5: "lesson_art (str ''start_time'') = Some (slot_end (snd (TIME_SLOTS ! 0)))"
    by (simp add: nth_slots example_start_times)
  have h6: "length blank_row = 6" by (simp add: blank_row_def)
  from lesson_placed_in_slot_cell
         [where d = 0 and k = 0 and l = lesson_math and week = example_week
            and t = "str ''08:30''" and ?l2.0 = lesson_art and row = blank_row]
       h0 h1 h2 h3 h4 h5 h6
  show ?thesis by blast
qed

text \<open>
  Claim C2. If no lesson of the day has a start time in the interval of slot \<open>k\<close>, the
  cell of that slot in the day's row is exactly \<^verbatim>\<open>'-'\<close>.
\<close>

theorem empty_slot_cell_is_dash:
  assumes "d < 5" and "k < 5"
      and "\<forall>l\<in>set (day_lessons week (ENGLISH_WEEKDAYS ! d)).
             \<forall>t. l (str ''start_time'') = Some t \<longrightarrow>
               \<not> (slot_start (snd (TIME_SLOTS ! k)) \<le> t \<and> t < slot_end (snd (TIME_SLOTS ! k)))"
  shows "\<exists>rows. table_data week = Inr rows \<and> rows ! d ! Suc k = str ''-''"
proof -
  let ?ls = "day_lessons week (ENGLISH_WEEKDAYS ! d)"
  have "\<not> in_slot (l (str ''start_time'')) (snd (TIME_SLOTS ! k))" if "l \<in> set ?ls" for l
  proof (cases "l (str ''start_time'')")
    case None
    then show ?thesis by (simp add: in_slot_def)
  next
    case (Some t)
    with assms that show ?thesis by (simp add: in_slot_Some)
  qed
  then have "slot_texts (Suc k) ?ls = []"
    using \<open>k < 5\<close> by (simp add: slot_texts_def slot_index_iff')
  then have "row_of (PERSIAN_WEEKDAYS ! d) ?ls ! Suc k = str ''-''"
    using \<open>k < 5\<close> by (simp add: row_of_nth cell_of_def)
  with table_data_nth [OF \<open>d < 5\<close>, of week] show ?thesis by auto
qed

theorem empty_slot_cell_is_dash_witness:
  "day_lessons example_week (ENGLISH_WEEKDAYS ! 0) =
     [lesson_math, lesson_bare, lesson_art, lesson_gap] \<and>
   (\<exists>rows. table_data example_week = Inr rows \<and> rows ! 0 ! Suc 4 = str ''-'')"
proof -
  have h0: "(0::nat) < 5" and h4: "(4::nat) < 5" by simp_all
  have s4: "snd (TIME_SLOTS ! 4) = \<lparr>slot_start = str ''17:00'', slot_end = str ''19:00''\<rparr>"
    by (simp add: TIME_SLOTS_def)
  have h: "\<forall>l\<in>set (day_lessons example_week (ENGLISH_WEEKDAYS ! 0)).
      \<forall>t. l (str ''start_time'') = Some t \<longrightarrow>
        \<not> (slot_start (snd (TIME_SLOTS ! 4)) \<le> t \<and> t < slot_end (snd (TIME_SLOTS ! 4)))"
    by (simp add: example_saturday example_start_times s4) (simp add: str_def)
  from empty_slot_cell_is_dash [where d = 0 and k = 4 and week = example_week] h0 h4 h
  show ?thesis by (simp add: example_saturday)
qed

text \<open>
  Claim C3. When two or more lessons of a day fall into slot \<open>k\<close>, the cell holds all
  their texts, in the order of the input list, joined by the separator
  \<^verbatim>\<open>'\n---\n'\<close>.
\<close>

theorem same_slot_lessons_concatenated:
  assumes "d < 5" and "k < 5"
      and "2 \<le> length (filter (\<lambda>l. in_slot (l (str ''start_time'')) (snd (TIME_SLOTS ! k)))
                      (day_lessons week (ENGLISH_WEEKDAYS ! d)))"
  shows "\<exists>rows. table_data week = Inr rows \<and>
           rows ! d ! Suc k =
             join SEPARATOR
               (map lesson_text
                  (filter (\<lambda>l. in_slot (l (str ''start_time'')) (snd (TIME_SLOTS ! k)))
                     (day_lessons week (ENGLISH_WEEKDAYS ! d))))"
proof -
  let ?ls = "day_lessons week (ENGLISH_WEEKDAYS ! d)"
  let ?m = "filter (\<lambda>l. in_slot (l (str ''start_time'')) (snd (TIME_SLOTS ! k))) ?ls"
  from assms(3) have "?m \<noteq> []" by auto
  then have "cell_of (slot_texts (Suc k) ?ls) = join SEPARATOR (map lesson_text ?m)"
    using \<open>k < 5\<close> by (simp add: slot_texts_in_slot cell_of_def)
  then have "row_of (PERSIAN_WEEKDAYS ! d) ?ls ! Suc k = join SEPARATOR (map lesson_text ?m)"
    using \<open>k < 5\<close> by (simp add: row_of_nth)
  with table_data_nth [OF \<open>d < 5\<close>, of week] show ?thesis by auto
qed

theorem same_slot_lessons_concatenated_witness:
  "2 \<le> length (filter (\<lambda>l. in_slot (l (str ''start_time'')) (snd (TIME_SLOTS ! 0)))
                 (day_lessons example_week (ENGLISH_WEEKDAYS ! 0))) \<and>
   (\<exists>rows. table_data example_week = Inr rows \<and>
      rows ! 0 ! Suc 0 = lesson_text lesson_math @ SEPARATOR @ lesson_text lesson_bare)"
proof -
  have h0: "(0::nat) < 5" by simp
  have f: "filter (\<lambda>l. in_slot (l (str ''start_time'')) (snd (TIME_SLOTS ! 0)))
             (day_lessons example_week (ENGLISH_WEEKDAYS ! 0)) = [lesson_math, lesson_bare]"
    by (simp add: example_saturday example_start_times nth_slots in_slot_def) (simp add: str_def)
  have h: "2 \<le> length (filter (\<lambda>l. in_slot (l (str ''start_time'')) (snd (TIME_SLOTS ! 0)))
                 (day_lessons example_week (ENGLISH_WEEKDAYS ! 0)))"
    by (simp add: f)
  from same_slot_lessons_concatenated [where d = 0 and k = 0 and week = example_week] h0 h
  show ?thesis by (simp add: f)
qed

text \<open>
  Claim C5. Building the table never raises, whatever fields the lesson entries lack, and
  the cell of a lesson shows the placeholder \<open>UNKNOWN_LESSON\<close> for a missing
  \<^verbatim>\<open>'lesson'\<close> field and \<^verbatim>\<open>'-'\<close> for a missing \<^verbatim>\<open>'location'\<close> field.
\<close>

theorem missing_fields_use_placeholders:
  "\<exists>rows. table_data week = Inr rows \<and>
     (d < 5 \<and> k < 5 \<and> l \<in> set (day_lessons week (ENGLISH_WEEKDAYS ! d)) \<and>
      in_slot (l (str ''start_time'')) (snd (TIME_SLOTS ! k)) \<longrightarrow>
      (\<exists>pre suf. rows ! d ! Suc k =
         pre @ ((case l (str ''lesson'') of None \<Rightarrow> UNKNOWN_LESSON | Some v \<Rightarrow> v)
                @ str ''\<newline>''
                @ (case l (str ''location'') of None \<Rightarrow> str ''-'' | Some v \<Rightarrow> v)) @ suf))"
proof (cases "d < 5 \<and> k < 5 \<and> l \<in> set (day_lessons week (ENGLISH_WEEKDAYS ! d)) \<and>
      in_slot (l (str ''start_time'')) (snd (TIME_SLOTS ! k))")
  case True
  then have d: "d < 5" and k: "k < 5"
    and l: "l \<in> set (day_lessons week (ENGLISH_WEEKDAYS ! d))"
    and s: "in_slot (l (str ''start_time'')) (snd (TIME_SLOTS ! k))" by simp_all
  from cell_contains [OF k l s] table_data_nth [OF d, of week]
  show ?thesis unfolding lesson_text_def by metis
next
  case False
  with table_data_eq [of week] show ?thesis by blast
qed

theorem missing_fields_use_placeholders_witness:
  "lesson_bare \<in> set (day_lessons example_week (ENGLISH_WEEKDAYS ! 0)) \<and>
   in_slot (lesson_bare (str ''start_time'')) (snd (TIME_SLOTS ! 0)) \<and>
   (\<exists>rows pre suf. table_data example_week = Inr rows \<and>
      rows ! 0 ! Suc 0 = pre @ (UNKNOWN_LESSON @ str ''\<newline>'' @ str ''-'') @ suf)"
proof -
  have h1: "lesson_bare \<in> set (day_lessons example_week (ENGLISH_WEEKDAYS ! 0))"
    by (simp add: example_saturday)
  have h2: "in_slot (lesson_bare (str ''start_time'')) (snd (TIME_SLOTS ! 0))"
    by (simp add: example_start_times nth_slots in_slot_def) (simp add: str_def)
  have n: "lesson_bare (str ''lesson'') = None" "lesson_bare (str ''location'') = None"
    by (simp_all add: lesson_bare_def str_def)
  from missing_fields_use_placeholders [of example_week 0 0 lesson_bare] h1 h2
  show ?thesis by (simp add: n)
qed

text \<open>
  Claim C7. The slot test compares strings lexicographically. For a start time written as
  zero-padded \<^verbatim>\<open>HH:MM\<close> this agrees with the comparison of the times as numbers: each
  comparison with a slot bound has the same outcome, and the scan picks the same slot.
\<close>

theorem lexicographic_matches_numeric:
  assumes "h < 100" and "m < 60" and "l (str ''start_time'') = Some (hhmm h m)"
  shows "slot_index l = slot_scan_numeric (60 * h + m) 0 TIME_SLOTS \<and>
         list_all (\<lambda>info.
             (slot_start info \<le> hhmm h m \<longleftrightarrow> minutes_of (slot_start info) \<le> 60 * h + m) \<and>
             (hhmm h m < slot_end info \<longleftrightarrow> 60 * h + m < minutes_of (slot_end info)))
           (map snd TIME_SLOTS)"
  using slot_scan_numeric_eq [OF in_slot_agrees [OF assms(2)], of h 0] bounds_agree [OF assms(2), of h]
    assms(3)
  by (simp add: slot_index_def)

theorem lexicographic_matches_numeric_witness:
  "lesson_bare (str ''start_time'') = Some (hhmm 9 15) \<and>
   slot_index lesson_bare = slot_scan_numeric (60 * 9 + 15) 0 TIME_SLOTS \<and>
   slot_index lesson_bare = 1"
proof -
  have h1: "(9::nat) < 100" and h2: "(15::nat) < 60" by simp_all
  have h3: "lesson_bare (str ''start_time'') = Some (hhmm 9 15)"
    by (simp add: lesson_bare_def str_def hhmm_def)
  have "slot_scan_numeric (60 * 9 + 15) 0 TIME_SLOTS = 1"
    by (simp add: TIME_SLOTS_def in_slot_numeric_def minutes_of_boundaries)
  with lexicographic_matches_numeric [where h = 9 and m = 15 and l = lesson_bare] h1 h2 h3
  show ?thesis by simp
qed

text \<open>
  Claim C8. A lesson whose start time is missing, empty or in no slot's interval is left
  out without an error: the table is built and is the table of the input without that
  lesson. The start times in no interval are those before \<^verbatim>\<open>'08:00'\<close>, from
  \<^verbatim>\<open>'12:00'\<close> up to \<^verbatim>\<open>'13:00'\<close>, and from \<^verbatim>\<open>'19:00'\<close> on.
\<close>

theorem unplaced_lesson_is_omitted:
  assumes "l (str ''start_time'') = None \<or> l (str ''start_time'') = Some [] \<or>
           (\<exists>t. l (str ''start_time'') = Some t \<and>
                list_all (\<lambda>info. \<not> (slot_start info \<le> t \<and> t < slot_end info))
                  (map snd TIME_SLOTS))"
  shows "(\<exists>rows. table_data (week(day \<mapsto> ls1 @ l # ls2)) = Inr rows \<and>
                 table_data (week(day \<mapsto> ls1 @ ls2)) = Inr rows) \<and>
         (list_all (\<lambda>info. \<not> (slot_start info \<le> t2 \<and> t2 < slot_end info)) (map snd TIME_SLOTS)
            \<longleftrightarrow> t2 < str ''08:00'' \<or> (str ''12:00'' \<le> t2 \<and> t2 < str ''13:00'') \<or>
                 str ''19:00'' \<le> t2)"
proof
  have idx: "slot_index l = - 1" using assms by (rule unplaced_slot_index)
  have "map (\<lambda>(day_en, day_fa). row_of day_fa (day_lessons (week(day \<mapsto> ls1 @ l # ls2)) day_en))
          (zip ENGLISH_WEEKDAYS PERSIAN_WEEKDAYS) =
        map (\<lambda>(day_en, day_fa). row_of day_fa (day_lessons (week(day \<mapsto> ls1 @ ls2)) day_en))
          (zip ENGLISH_WEEKDAYS PERSIAN_WEEKDAYS)"
    by (rule map_cong [OF refl]) (auto simp: day_lessons_upd row_of_skip [OF idx])
  then show "\<exists>rows. table_data (week(day \<mapsto> ls1 @ l # ls2)) = Inr rows \<and>
                 table_data (week(day \<mapsto> ls1 @ ls2)) = Inr rows"
    by (simp add: table_data_eq)
next
  show "list_all (\<lambda>info. \<not> (slot_start info \<le> t2 \<and> t2 < slot_end info)) (map snd TIME_SLOTS)
            \<longleftrightarrow> t2 < str ''08:00'' \<or> (str ''12:00'' \<le> t2 \<and> t2 < str ''13:00'') \<or>
                 str ''19:00'' \<le> t2"
    by (rule gaps_iff)
qed

theorem unplaced_lesson_is_omitted_witness:
  "lesson_gap (str ''start_time'') = Some (str ''12:30'') \<and>
   list_all (\<lambda>info. \<not> (slot_start info \<le> str ''12:30'' \<and> str ''12:30'' < slot_end info))
     (map snd TIME_SLOTS) \<and>
   (\<exists>rows.
      table_data (example_week(str ''saturday'' \<mapsto> [lesson_math] @ lesson_gap # [lesson_art]))
        = Inr rows \<and>
      table_data (example_week(str ''saturday'' \<mapsto> [lesson_math] @ [lesson_art])) = Inr rows)"
proof -
  have st: "lesson_gap (str ''start_time'') = Some (str ''12:30'')"
    by (simp add: lesson_gap_def str_def)
  have h: "lesson_gap (str ''start_time'') = None \<or>
           lesson_gap (str ''start_time'') = Some [] \<or>
           (\<exists>t. lesson_gap (str ''start_time'') = Some t \<and>
                list_all (\<lambda>info. \<not> (slot_start info \<le> t \<and> t < slot_end info))
                  (map snd TIME_SLOTS))"
    using st example_gap_unplaced by simp
  from unplaced_lesson_is_omitted
         [where l = lesson_gap and week = example_week and day = "str ''saturday''"
            and ?ls1.0 = "[lesson_math]" and ?ls2.0 = "[lesson_art]" and ?t2.0 = "str ''12:30''"]
       h st example_gap_unplaced
  show ?thesis by blast
qed

text \<open>
  Claim C9. A lesson goes to at most one cell. If its start time is in the interval of
  slot \<open>k\<close>, then it is in the interval of no other slot \<open>j\<close> (exactly one of the five
  intervals holds it), the scan yields column \<open>k + 1\<close>, the cell of that column in the
  day's row holds the lesson's text, and every other slot cell of the row is what it is
  without the lesson.
\<close>

theorem lesson_in_exactly_one_cell:
  assumes "d < 5" and "k < 5" and "j < 5" and "j \<noteq> k"
      and "in_slot (l (str ''start_time'')) (snd (TIME_SLOTS ! k))"
      and "week (ENGLISH_WEEKDAYS ! d) = Some (ls1 @ l # ls2)"
  shows "\<not> in_slot (l (str ''start_time'')) (snd (TIME_SLOTS ! j)) \<and>
         length (filter (in_slot (l (str ''start_time''))) (map snd TIME_SLOTS)) = 1 \<and>
         slot_index l = int k + 1 \<and>
         (\<exists>rows rows0 pre suf.
            table_data week = Inr rows \<and>
            table_data (week(ENGLISH_WEEKDAYS ! d \<mapsto> ls1 @ ls2)) = Inr rows0 \<and>
            rows ! d ! Suc k = pre @ lesson_text l @ suf \<and>
            rows ! d ! Suc j = rows0 ! d ! Suc j)"
proof -
  let ?day = "ENGLISH_WEEKDAYS ! d"
  let ?w0 = "week(?day \<mapsto> ls1 @ ls2)"
  have idx: "slot_index l = 1 + int k" using assms by (simp add: slot_index_iff')
  then have nj: "slot_index l \<noteq> int (Suc j)" using \<open>j \<noteq> k\<close> by simp
  then have a: "\<not> in_slot (l (str ''start_time'')) (snd (TIME_SLOTS ! j))"
    using slot_index_iff [OF \<open>j < 5\<close>, of l] by simp
  have b: "length (filter (in_slot (l (str ''start_time''))) (map snd TIME_SLOTS)) = 1"
    using assms(2,5) by (rule matching_slot_unique)
  have ls: "day_lessons week ?day = ls1 @ l # ls2" "day_lessons ?w0 ?day = ls1 @ ls2"
    using assms(6) by (simp_all add: day_lessons_def)
  obtain rows where rows: "table_data week = Inr rows"
      "rows ! d = row_of (PERSIAN_WEEKDAYS ! d) (ls1 @ l # ls2)"
    using table_data_nth [OF \<open>d < 5\<close>, of week] ls by auto
  obtain rows0 where rows0: "table_data ?w0 = Inr rows0"
      "rows0 ! d = row_of (PERSIAN_WEEKDAYS ! d) (ls1 @ ls2)"
    using table_data_nth [OF \<open>d < 5\<close>, of ?w0] ls by auto
  have "l \<in> set (ls1 @ l # ls2)" by simp
  from cell_contains [OF \<open>k < 5\<close> this assms(5), of "PERSIAN_WEEKDAYS ! d"]
  obtain pre suf where c: "rows ! d ! Suc k = pre @ lesson_text l @ suf"
    using rows(2) by auto
  have e: "rows ! d ! Suc j = rows0 ! d ! Suc j"
    using \<open>j < 5\<close> by (simp add: rows(2) rows0(2) row_of_nth slot_texts_other [OF nj])
  from a b idx rows(1) rows0(1) c e show ?thesis by auto
qed

theorem lesson_in_exactly_one_cell_witness:
  "in_slot (lesson_bare (str ''start_time'')) (snd (TIME_SLOTS ! 0)) \<and>
   example_week (ENGLISH_WEEKDAYS ! 0) = Some ([lesson_math] @ lesson_bare # [lesson_art, lesson_gap]) \<and>
   \<not> in_slot (lesson_bare (str ''start_time'')) (snd (TIME_SLOTS ! 1)) \<and>
   slot_index lesson_bare = 1 \<and>
   (\<exists>rows rows0 pre suf.
      table_data example_week = Inr rows \<and>
      table_data (example_week(ENGLISH_WEEKDAYS ! 0 \<mapsto> [lesson_math] @ [lesson_art, lesson_gap]))
        = Inr rows0 \<and>
      rows ! 0 ! Suc 0 = pre @ lesson_text lesson_bare @ suf \<and>
      rows ! 0 ! Suc 1 = rows0 ! 0 ! Suc 1)"
proof -
  have h0: "(0::nat) < 5" and h1: "(1::nat) < 5" and h2: "(1::nat) \<noteq> 0" by simp_all
  have h3: "in_slot (lesson_bare (str ''start_time'')) (snd (TIME_SLOTS ! 0))"
    by (simp add: lesson_bare_def TIME_SLOTS_def in_slot_def str_def)
  have h4: "example_week (ENGLISH_WEEKDAYS ! 0) =
              Some ([lesson_math] @ lesson_bare # [lesson_art, lesson_gap])"
    by (simp add: example_week_def ENGLISH_WEEKDAYS_def str_def)
  from lesson_in_exactly_one_cell
         [where d = 0 and k = 0 and j = 1 and l = lesson_bare and week = example_week
            and ?ls1.0 = "[lesson_math]" and ?ls2.0 = "[lesson_art, lesson_gap]"]
       h0 h1 h2 h3 h4
  show ?thesis by simp
qed

text \<open>
  Claim C10. Only the keys of \<open>ENGLISH_WEEKDAYS\<close> are read: two week schedules that agree
  on these five keys give the same table data, whatever they hold under other keys; and
  a day whose key is absent gets the row of its name and five \<^verbatim>\<open>'-'\<close>.
\<close>

theorem only_weekday_keys_consulted:
  assumes "\<forall>day\<in>set ENGLISH_WEEKDAYS. w1 day = w2 day"
      and "d < 5" and "w3 (ENGLISH_WEEKDAYS ! d) = None"
  shows "table_data w1 = table_data w2 \<and>
         (\<exists>rows. table_data w3 = Inr rows \<and>
            rows ! d = (PERSIAN_WEEKDAYS ! d) # replicate 5 (str ''-''))"
proof
  from assms(1) show "table_data w1 = table_data w2"
    by (intro table_data_cong) (simp add: day_lessons_def)
next
  have "day_lessons w3 (ENGLISH_WEEKDAYS ! d) = []"
    using assms(3) by (simp add: day_lessons_def)
  then have "row_of (PERSIAN_WEEKDAYS ! d) (day_lessons w3 (ENGLISH_WEEKDAYS ! d)) =
             (PERSIAN_WEEKDAYS ! d) # replicate 5 (str ''-'')"
    by (simp add: row_of_def slot_texts_def cell_of_def map_replicate_const)
  with table_data_nth [OF \<open>d < 5\<close>, of w3]
  show "\<exists>rows. table_data w3 = Inr rows \<and>
            rows ! d = (PERSIAN_WEEKDAYS ! d) # replicate 5 (str ''-'')"
    by auto
qed

theorem only_weekday_keys_consulted_witness:
  "example_week (ENGLISH_WEEKDAYS ! 1) = None \<and>
   table_data example_week = table_data (example_week(str ''thursday'' \<mapsto> [lesson_art])) \<and>
   (\<exists>rows. table_data example_week = Inr rows \<and>
      rows ! 1 = (PERSIAN_WEEKDAYS ! 1) # replicate 5 (str ''-''))"
proof -
  have h1: "\<forall>day\<in>set ENGLISH_WEEKDAYS.
              example_week day = (example_week(str ''thursday'' \<mapsto> [lesson_art])) day"
    by (simp add: ENGLISH_WEEKDAYS_def str_def)
  have h2: "(1::nat) < 5" by simp
  have h3: "example_week (ENGLISH_WEEKDAYS ! 1) = None"
    by (simp add: example_week_def ENGLISH_WEEKDAYS_def str_def)
  from only_weekday_keys_consulted
         [where ?w1.0 = example_week and ?w2.0 = "example_week(str ''thursday'' \<mapsto> [lesson_art])"
            and d = 1 and ?w3.0 = example_week]
       h1 h2 h3
  show ?thesis by blast
qed

section \<open>Running the statements\<close>

lemma emit_emit: "emit cs (emit ds w) = emit (ds @ cs) w"
  by (simp add: emit_def)

lemma emit_sel:
  "calls (emit cs w) = calls w @ cs" "stderr (emit cs w) = stderr w"
  "stdout (emit cs w) = stdout w"
  by (simp_all add: emit_def)


lemma invoke_returns:
  "raises lib (calls w) c = None \<Longrightarrow> invoke lib c w = (None, emit [c] w)"
  by (simp add: invoke_def emit_def)

lemma invoke_raises:
  "raises lib (calls w) c = Some e \<Longrightarrow> invoke lib c w = (Some e, emit [c] w)"
  by (simp add: invoke_def emit_def)

lemma font_loaders_distinct:
  "AddPage \<noteq> add_vazir" "AddPage \<noteq> set_vazir n"
  "SetFont ff (str '''') 10 \<noteq> add_vazir" "SetFont ff (str '''') 10 \<noteq> set_vazir 16"
  "SetFont ff (str '''') 10 \<noteq> set_vazir 8"
  "AutoTable rows hs ws os \<noteq> add_vazir" "AutoTable rows hs ws os \<noteq> set_vazir n"
  "NewPDF a b c \<noteq> add_vazir" "NewPDF a b c \<noteq> set_vazir n"
  "AliasNbPages \<noteq> add_vazir" "AliasNbPages \<noteq> set_vazir n"
  "Output dest \<noteq> add_vazir" "Output dest \<noteq> set_vazir n"
  by (simp_all add: add_vazir_def set_vazir_def)


lemma output_encoded_returns:
  assumes "raises lib (calls w) (Output (str ''S'')) = None"
  shows "output_encoded lib encode w = (encode (output_of lib (calls w)), emit [Output (str ''S'')] w)"
  using assms by (simp add: output_encoded_def invoke_def emit_def)

lemma utf8_char_latin1: "c < 256 \<Longrightarrow> \<exists>bs. utf8_char c = Inr bs"
  by (simp add: utf8_char_def)

lemma encode_utf8_latin1: "list_all (\<lambda>c. c < 256) s \<Longrightarrow> \<exists>bs. encode_utf8 s = Inr bs"
proof (induction s)
  case Nil
  then show ?case by simp
next
  case (Cons c cs)
  then obtain bs rest where "utf8_char c = Inr bs" "encode_utf8 cs = Inr rest"
    using utf8_char_latin1 [of c] by auto
  then show ?case by simp
qed

lemma encode_latin1_ok: "list_all (\<lambda>c. c < 256) s \<Longrightarrow> encode_latin1 s = Inr (map of_nat s)"
  by (simp add: encode_latin1_def)

lemma week_types_data:
  "week_types (case schedule ud of
                 None \<Rightarrow> \<lparr>odd_week_schedule = None, even_week_schedule = None\<rparr>
               | Some s \<Rightarrow> s) =
     [\<lparr>wk_type = str ''odd'', wk_label = [0x641, 0x631, 0x62F], wk_emoji = [0x1F7E3],
        wk_data = odd_week_of ud\<rparr>,
      \<lparr>wk_type = str ''even'', wk_label = [0x632, 0x648, 0x62C], wk_emoji = [0x1F7E2],
        wk_data = even_week_of ud\<rparr>]"
  by (simp add: week_types_def odd_week_of_def even_week_of_def split: option.splits)

section \<open>Header and footer\<close>

lemma header_returns:
  assumes "\<forall>h c. raises lib h c = None"
  shows "\<exists>ff. header lib full_name week_label week_emoji w =
           (None, emit ([add_vazir, set_vazir 16, SetY 10,
                         header_cells full_name week_label week_emoji ! 0,
                         SetFont ff (str '''') 14,
                         header_cells full_name week_label week_emoji ! 1,
                         header_cells full_name week_label week_emoji ! 2, Ln 5]) w)"
proof -
  let ?t = "header_cells full_name week_label week_emoji ! 0"
  let ?ff = "font_family_of lib (calls w @ [add_vazir, set_vazir 16, SetY 10, ?t])"
  have "header lib full_name week_label week_emoji w =
           (None, emit ([add_vazir, set_vazir 16, SetY 10, ?t, SetFont ?ff (str '''') 14,
                         header_cells full_name week_label week_emoji ! 1,
                         header_cells full_name week_label week_emoji ! 2, Ln 5]) w)"
    using assms
    by (simp add: header_def seq_def try_except_Exception_def invoke_returns emit_emit emit_sel
        add_vazir_def set_vazir_def header_cells_def)
  then show ?thesis by blast
qed

lemma filter_header:
  "filter is_content [add_vazir, set_vazir 16, SetY 10,
                         header_cells full_name week_label week_emoji ! 0,
                         SetFont ff (str '''') 14,
                         header_cells full_name week_label week_emoji ! 1,
                         header_cells full_name week_label week_emoji ! 2, Ln 5] =
     header_cells full_name week_label week_emoji"
  by (simp add: add_vazir_def set_vazir_def header_cells_def)

lemma header_good_quiet:
  assumes "\<forall>h c. raises lib h c = None"
  shows "\<exists>w1 hs. header lib full_name week_label week_emoji w0 = (None, w1) \<and>
           calls w1 = calls w0 @ hs \<and> stdout w1 = stdout w0 \<and>
           filter is_content hs = header_cells full_name week_label week_emoji"
proof -
  from header_returns [OF assms, of full_name week_label week_emoji w0]
  obtain ff where "header lib full_name week_label week_emoji w0 =
           (None, emit ([add_vazir, set_vazir 16, SetY 10,
                         header_cells full_name week_label week_emoji ! 0,
                         SetFont ff (str '''') 14,
                         header_cells full_name week_label week_emoji ! 1,
                         header_cells full_name week_label week_emoji ! 2, Ln 5]) w0)"
    by blast
  then show ?thesis
    using filter_header [of full_name week_label week_emoji ff] emit_sel(1,3) by metis
qed




section \<open>The whole function\<close>

lemma render_week_returns:
  assumes B: "\<forall>h c. c \<noteq> add_vazir \<longrightarrow> c \<noteq> set_vazir 16 \<longrightarrow> c \<noteq> set_vazir 8 \<longrightarrow>
                 raises lib h c = None"
      and H: "header lib full_name (wk_label wk) (wk_emoji wk) (emit [AddPage] w) = (None, w1)"
      and c1: "calls w1 = calls w @ AddPage # hs"
      and f: "filter is_content hs = header_cells full_name (wk_label wk) (wk_emoji wk)"
  shows "\<exists>cs w2. render_week lib full_name wk w = (None, w2) \<and>
           calls w2 = calls w @ cs \<and> stderr w2 = stderr w1 \<and> stdout w2 = stdout w1 \<and>
           filter is_content cs =
             page_content full_name (wk_label wk) (wk_emoji wk) (table_rows (wk_data wk))"
proof -
  let ?sf = "SetFont (font_family_of lib (calls w1)) (str '''') 10"
  let ?at = "AutoTable (table_rows (wk_data wk)) table_headers col_widths table_options"
  have r: "raises lib h AddPage = None" "raises lib h ?sf = None" "raises lib h ?at = None" for h
    using B by (simp_all add: font_loaders_distinct)
  have "render_week lib full_name wk w = (None, emit [?sf, ?at] w1)"
    by (simp add: render_week_def seq_def from_lib_def invoke_returns r H table_data_rows
        emit_emit emit_sel)
  moreover have "calls (emit [?sf, ?at] w1) = calls w @ (AddPage # hs @ [?sf, ?at])"
    by (simp add: emit_sel c1)
  moreover have "filter is_content (AddPage # hs @ [?sf, ?at]) =
      page_content full_name (wk_label wk) (wk_emoji wk) (table_rows (wk_data wk))"
    by (simp add: f page_content_def)
  ultimately show ?thesis by (metis emit_sel(2,3))
qed

lemma generate_returns:
  assumes B: "\<forall>h c. c \<noteq> add_vazir \<longrightarrow> c \<noteq> set_vazir 16 \<longrightarrow> c \<noteq> set_vazir 8 \<longrightarrow>
                 raises lib h c = None"
      and C: "\<forall>h. list_all (\<lambda>c. c < 256) (output_of lib h)"
      and H: "\<And>full_name week_label week_emoji w0.
                \<exists>w1 hs. header lib full_name week_label week_emoji w0 = (None, w1) \<and>
                   calls w1 = calls w0 @ hs \<and> stdout w1 = stdout w0 \<and>
                   filter is_content hs = header_cells full_name week_label week_emoji"
  shows "\<exists>bytes w' cs. generate_schedule_pdf lib ud w = (Inr bytes, w') \<and>
           calls w' = calls w @ cs \<and> stdout w' = stdout w \<and>
           filter is_content cs =
             page_content (name_of ud) [0x641, 0x631, 0x62F] [0x1F7E3] (table_rows (odd_week_of ud))
             @ page_content (name_of ud) [0x632, 0x648, 0x62C] [0x1F7E2]
                 (table_rows (even_week_of ud)) \<and>
           encode_utf8 (output_of lib (butlast (calls w'))) = Inr bytes"
proof -
  let ?new = "NewPDF (str ''L'') (str ''mm'') (str ''A4'')"
  let ?out = "Output (str ''S'')"
  let ?wo = "\<lparr>wk_type = str ''odd'', wk_label = [0x641, 0x631, 0x62F], wk_emoji = [0x1F7E3],
        wk_data = odd_week_of ud\<rparr>"
  let ?we = "\<lparr>wk_type = str ''even'', wk_label = [0x632, 0x648, 0x62C], wk_emoji = [0x1F7E2],
        wk_data = even_week_of ud\<rparr>"
  let ?po = "page_content (name_of ud) [0x641, 0x631, 0x62F] [0x1F7E3] (table_rows (odd_week_of ud))"
  let ?pe = "page_content (name_of ud) [0x632, 0x648, 0x62C] [0x1F7E2] (table_rows (even_week_of ud))"
  have r: "raises lib h ?new = None" "raises lib h AliasNbPages = None"
          "raises lib h ?out = None" for h
    using B by (simp_all add: font_loaders_distinct)
  let ?wa = "emit [?new, AliasNbPages] w"
  \<comment> \<open>the odd week\<close>
  from H [of "name_of ud" "wk_label ?wo" "wk_emoji ?wo" "emit [AddPage] ?wa"]
  obtain w1 hs1 where h1: "header lib (name_of ud) (wk_label ?wo) (wk_emoji ?wo) (emit [AddPage] ?wa) = (None, w1)"
      "calls w1 = calls (emit [AddPage] ?wa) @ hs1" "stdout w1 = stdout (emit [AddPage] ?wa)"
      "filter is_content hs1 = header_cells (name_of ud) (wk_label ?wo) (wk_emoji ?wo)"
    by blast
  from h1(2) have c1: "calls w1 = calls ?wa @ AddPage # hs1" by (simp add: emit_sel)
  from render_week_returns [OF B h1(1) c1 h1(4)]
  obtain cs1 w2 where o: "render_week lib (name_of ud) ?wo ?wa = (None, w2)"
      "calls w2 = calls ?wa @ cs1" "stdout w2 = stdout w1" "filter is_content cs1 = ?po"
    by auto
  \<comment> \<open>the even week\<close>
  from H [of "name_of ud" "wk_label ?we" "wk_emoji ?we" "emit [AddPage] w2"]
  obtain w3 hs2 where h2: "header lib (name_of ud) (wk_label ?we) (wk_emoji ?we) (emit [AddPage] w2) = (None, w3)"
      "calls w3 = calls (emit [AddPage] w2) @ hs2" "stdout w3 = stdout (emit [AddPage] w2)"
      "filter is_content hs2 = header_cells (name_of ud) (wk_label ?we) (wk_emoji ?we)"
    by blast
  from h2(2) have c2: "calls w3 = calls w2 @ AddPage # hs2" by (simp add: emit_sel)
  from render_week_returns [OF B h2(1) c2 h2(4)]
  obtain cs2 w4 where e: "render_week lib (name_of ud) ?we w2 = (None, w4)"
      "calls w4 = calls w2 @ cs2" "stdout w4 = stdout w3" "filter is_content cs2 = ?pe"
    by auto
  have loop: "seq (from_lib (invoke lib ?new))
               (seq (from_lib (invoke lib AliasNbPages))
                  (render_weeks lib (name_of ud) [?wo, ?we])) w = (None, w4)"
    by (simp add: seq_def from_lib_def invoke_returns r emit_emit emit_sel o e)
  \<comment> \<open>the output\<close>
  let ?w5 = "emit [?out] w4" and ?w6 = "emit [?out, ?out] w4"
  have l1: "output_encoded lib encode_latin1 w4 =
              (Inr (map of_nat (output_of lib (calls w4))), ?w5)"
    using C by (simp add: output_encoded_returns r encode_latin1_ok)
  obtain bytes where b: "encode_utf8 (output_of lib (calls ?w5)) = Inr bytes"
    using encode_utf8_latin1 C by blast
  have l2: "output_encoded lib encode_utf8 ?w5 = (Inr bytes, ?w6)"
    by (simp add: output_encoded_returns r b emit_emit)
  have g: "generate_schedule_pdf lib ud w = (Inr bytes, ?w6)"
    unfolding generate_schedule_pdf_def Let_def week_types_data name_of_def [symmetric] loop
    by (simp add: l1 l2)
  have cs: "calls ?w6 = calls w @ ([?new, AliasNbPages] @ cs1 @ cs2 @ [?out, ?out])"
    by (simp add: emit_sel o(2) e(2))
  have f: "filter is_content ([?new, AliasNbPages] @ cs1 @ cs2 @ [?out, ?out]) = ?po @ ?pe"
    by (simp add: o(4) e(4))
  have so: "stdout ?w6 = stdout w"
    by (simp add: emit_sel e(3) h2(3) o(3) h1(3))
  have bl: "butlast (calls ?w6) = calls ?w5"
    by (simp add: emit_sel butlast_append)
  from g cs f so b bl show ?thesis by metis
qed


section \<open>The page hook\<close>

lemma generate_raises_at_add_page:
  assumes "\<forall>h. \<exists>m. raises lib h AddPage = Some (Exception m)"
  shows "\<exists>e w' cs. generate_schedule_pdf lib ud w = (Inl e, w') \<and> calls w' = calls w @ cs \<and>
           (cs = [NewPDF (str ''L'') (str ''mm'') (str ''A4'')] \<or>
            cs = [NewPDF (str ''L'') (str ''mm'') (str ''A4''), AliasNbPages] \<or>
            cs = [NewPDF (str ''L'') (str ''mm'') (str ''A4''), AliasNbPages, AddPage])"
proof -
  let ?new = "NewPDF (str ''L'') (str ''mm'') (str ''A4'')"
  show ?thesis
  proof (cases "raises lib (calls w) ?new")
    case (Some e)
    then have "generate_schedule_pdf lib ud w = (Inl (LibraryError e), emit [?new] w)"
      by (simp add: generate_schedule_pdf_def Let_def seq_def from_lib_def invoke_raises)
    then show ?thesis by (auto simp: emit_sel)
  next
    case None
    note n = this
    show ?thesis
    proof (cases "raises lib (calls w @ [?new]) AliasNbPages")
      case (Some e)
      then have "generate_schedule_pdf lib ud w =
                   (Inl (LibraryError e), emit [?new, AliasNbPages] w)"
        by (simp add: generate_schedule_pdf_def Let_def seq_def from_lib_def invoke_def n
            emit_def)
      then show ?thesis by (auto simp: emit_sel)
    next
      case None
      from assms obtain m where
        m: "raises lib (calls w @ [?new, AliasNbPages]) AddPage = Some (Exception m)"
        by blast
      have "generate_schedule_pdf lib ud w =
              (Inl (LibraryError (Exception m)), emit [?new, AliasNbPages, AddPage] w)"
        unfolding generate_schedule_pdf_def Let_def week_types_data
        by (simp add: seq_def from_lib_def invoke_def n None m render_week_def emit_def)
      then show ?thesis by (auto simp: emit_sel)
    qed
  qed
qed

lemma hook_lib_sel:
  "raises hook_lib h c =
     (if c = AddPage
      then Some (Exception (str ''header() missing 3 required positional arguments''))
      else None)"
  by (simp add: hook_lib_def)

lemma page_hook_hook_lib: "page_hook hook_lib"
  by (simp add: page_hook_def hook_lib_sel)

text \<open>The run of the sample library on the sample user: the constructor and
  \<^verbatim>\<open>alias_nb_pages()\<close> return, the first \<^verbatim>\<open>add_page()\<close> raises, and that is the result.\<close>

lemma example_hook_run:
  "generate_schedule_pdf hook_lib example_user world0 =
     (Inl (LibraryError (Exception (str ''header() missing 3 required positional arguments''))),
      emit [NewPDF (str ''L'') (str ''mm'') (str ''A4''), AliasNbPages, AddPage] world0)"
  unfolding generate_schedule_pdf_def Let_def week_types_data
  by (simp add: seq_def from_lib_def invoke_def hook_lib_sel render_week_def emit_def)

text \<open>
  What the function sets out to do, shown on a library whose calls all return and whose
  \<^verbatim>\<open>output\<close> gives a Latin-1 string: it returns a byte sequence (the UTF-8 encoding of
  that string), and the content it has put into the document is a page for the odd week,
  then a page for the even week, each with the header cells of its week type and one
  table; each table has 5 rows of 6 cells, the first cell of a row being the day name,
  under 6 headings.
\<close>

lemma content_when_library_returns:
  assumes "\<forall>h c. raises lib h c = None"
      and "\<forall>h. list_all (\<lambda>c. c < 256) (output_of lib h)"
  shows "\<exists>bytes w' cs rows_odd rows_even.
           generate_schedule_pdf lib ud w = (Inr bytes, w') \<and>
           encode_utf8 (output_of lib (butlast (calls w'))) = Inr bytes \<and>
           calls w' = calls w @ cs \<and>
           filter is_content cs =
             page_content (name_of ud) [0x641, 0x631, 0x62F] [0x1F7E3] rows_odd
             @ page_content (name_of ud) [0x632, 0x648, 0x62C] [0x1F7E2] rows_even \<and>
           table_data (odd_week_of ud) = Inr rows_odd \<and>
           table_data (even_week_of ud) = Inr rows_even \<and>
           map length rows_odd = [6, 6, 6, 6, 6] \<and> map hd rows_odd = PERSIAN_WEEKDAYS \<and>
           map length rows_even = [6, 6, 6, 6, 6] \<and> map hd rows_even = PERSIAN_WEEKDAYS \<and>
           length table_headers = 6"
proof -
  have B: "\<forall>h c. c \<noteq> add_vazir \<longrightarrow> c \<noteq> set_vazir 16 \<longrightarrow> c \<noteq> set_vazir 8 \<longrightarrow>
                 raises lib h c = None"
    using assms(1) by simp
  from generate_returns [OF B assms(2) header_good_quiet [OF assms(1)], of ud w]
  obtain bytes w' cs where
      "generate_schedule_pdf lib ud w = (Inr bytes, w')" "calls w' = calls w @ cs"
      "filter is_content cs =
         page_content (name_of ud) [0x641, 0x631, 0x62F] [0x1F7E3] (table_rows (odd_week_of ud))
         @ page_content (name_of ud) [0x632, 0x648, 0x62C] [0x1F7E2]
             (table_rows (even_week_of ud))"
      "encode_utf8 (output_of lib (butlast (calls w'))) = Inr bytes"
    by blast
  then show ?thesis
    by (intro exI [of _ bytes] exI [of _ w'] exI [of _ cs]
          exI [of _ "table_rows (odd_week_of ud)"] exI [of _ "table_rows (even_week_of ud)"])
       (simp add: table_data_rows table_rows_shape length_table_headers)
qed

text \<open>
  Claim C4, on the code. The library calls the page hook: \<^verbatim>\<open>add_page()\<close> calls
  \<^verbatim>\<open>self.header()\<close> with no argument, and \<^verbatim>\<open>header\<close> (line 20) accepts only calls with three.
  So on every input \<^verbatim>\<open>generate_schedule_pdf\<close> raises, at the first \<^verbatim>\<open>add_page()\<close> at the
  latest: it returns no byte sequence, and no page gets a header cell or a table.
\<close>

theorem add_page_hook_raises:
  assumes "page_hook lib"
  shows "\<exists>e w' cs. generate_schedule_pdf lib ud w = (Inl e, w') \<and> calls w' = calls w @ cs \<and>
           (cs = [NewPDF (str ''L'') (str ''mm'') (str ''A4'')] \<or>
            cs = [NewPDF (str ''L'') (str ''mm'') (str ''A4''), AliasNbPages] \<or>
            cs = [NewPDF (str ''L'') (str ''mm'') (str ''A4''), AliasNbPages, AddPage])"
proof -
  have "\<not> header_accepts []" by (simp add: header_accepts_def)
  with assms have "\<forall>h. \<exists>m. raises lib h AddPage = Some (Exception m)"
    by (simp add: page_hook_def)
  then show ?thesis by (rule generate_raises_at_add_page)
qed

theorem add_page_hook_raises_witness:
  "page_hook hook_lib \<and>
   (\<exists>e w' cs. generate_schedule_pdf hook_lib example_user world0 = (Inl e, w') \<and>
      calls w' = calls world0 @ cs \<and>
      (cs = [NewPDF (str ''L'') (str ''mm'') (str ''A4'')] \<or>
       cs = [NewPDF (str ''L'') (str ''mm'') (str ''A4''), AliasNbPages] \<or>
       cs = [NewPDF (str ''L'') (str ''mm'') (str ''A4''), AliasNbPages, AddPage]))"
  using page_hook_hook_lib
    add_page_hook_raises [where lib = hook_lib and ud = example_user and w = world0,
      OF page_hook_hook_lib]
  by (rule conjI)

section \<open>The fallback to Arial\<close>



















end
